theory Spec2Isabelle
  imports Main "HOL-Library.Word" "HOL-Library.Sublist"
begin

section \<open>JavaScript strings and thrown errors\<close>

text \<open>
  A JavaScript string is a sequence of 16-bit code units. Literals of the source are
  written \<open>js ''...''\<close>.
\<close>

type_synonym code_unit = "16 word"
type_synonym jsstring = "code_unit list"

definition js :: "string \<Rightarrow> jsstring" where
  "js s = map of_char s"

text \<open>
  A thrown value: its constructor name and its \<open>message\<close> property. The proxy handler
  reads nothing else of what it catches.
\<close>

datatype js_error = JsError (err_name: string) (err_message: jsstring)

definition URIError :: js_error where
  "URIError = JsError ''URIError'' (js ''URI malformed'')"

definition TypeError_null :: js_error where
  "TypeError_null = JsError ''TypeError'' (js ''Cannot read properties of null'')"

section \<open>The platform: what the imported packages compute\<close>

text \<open>
  \<open>server.ts\<close> calls into the WHATWG \<open>URL\<close> class, \<open>jsdom\<close>, \<open>dompurify\<close>,
  \<open>node-fetch\<close> and \<open>express\<close>. None of them is part of the repository; each is a field of the record
  \<open>platform\<close>, and every theorem below holds for all platforms.
\<close>

record url =
  href :: jsstring
  hostname :: jsstring

text \<open>
  A node of a parsed document: an element with its local name, its attributes in
  source order and its children, or character data. A \<open>template\<close> element has no
  children: the parser puts what stands between its tags into its template contents, a
  fragment of its own, which \<open>querySelectorAll\<close> on the document does not reach and
  which the serialiser writes in the place of children. \<open>Template attrs content\<close> is
  such an element.
\<close>

datatype node =
    Element jsstring "(jsstring \<times> jsstring) list" "node list"
  | Text jsstring
  | Comment jsstring
  | Template "(jsstring \<times> jsstring) list" "node list"

text \<open>
  A document: what lies outside the root element (the doctype and top-level comments)
  and \<open>documentElement\<close>, which is \<open>null\<close> (\<open>None\<close>) once the root has been removed.
\<close>

record document =
  doctype :: "jsstring option"
  outer_comments :: "jsstring list"
  documentElement :: "node option"

text \<open>
  What \<open>await fetch(target, { redirect: 'follow' })\<close> resolves to: \<open>final_url\<close> is
  \<open>upstream.url\<close>, the URL after the redirects; \<open>content_type\<close> is
  \<open>upstream.headers.get('content-type')\<close>; reading the body as text or as bytes may
  reject.
\<close>

record upstream =
  final_url :: jsstring
  content_type :: "jsstring option"
  text_body :: "js_error + jsstring"
  arrayBuffer :: "js_error + 8 word list"

text \<open>
  \<open>res_set field value\<close> is the value that \<open>res.set(field, value)\<close> of \<open>express\<close>
  stores in the response: for \<open>Content-Type\<close> it may append a \<open>charset\<close> parameter
  to a value that names none.
\<close>

record platform =
  url_ctor :: "jsstring \<Rightarrow> jsstring option \<Rightarrow> js_error + url"
  jsdom :: "jsstring \<Rightarrow> jsstring \<Rightarrow> js_error + document"
  outerHTML :: "node \<Rightarrow> jsstring"
  sanitize :: "jsstring \<Rightarrow> jsstring"
  fetch :: "jsstring \<Rightarrow> js_error + upstream"
  res_set :: "string \<Rightarrow> jsstring \<Rightarrow> jsstring"

section \<open>Host allowlist\<close>

text \<open>\<open>String.prototype.split\<close> with a one-character separator.\<close>

fun split_on :: "code_unit \<Rightarrow> jsstring \<Rightarrow> jsstring list" where
  "split_on sep [] = [[]]"
| "split_on sep (c # cs) =
     (if c = sep then [] # split_on sep cs
      else (case split_on sep cs of
              [] \<Rightarrow> [[c]]
            | w # ws \<Rightarrow> (c # w) # ws))"

text \<open>
  \<open>const ALLOWED_HOSTS = (process.env.ALLOWED_HOSTS || '').split(',').filter(Boolean)\<close>:
  an unset variable is \<open>None\<close>; \<open>Boolean\<close> is false exactly on the empty string.
\<close>

definition ALLOWED_HOSTS :: "jsstring option \<Rightarrow> jsstring list" where
  "ALLOWED_HOSTS env =
     filter (\<lambda>h. h \<noteq> [])
       (split_on 0x2C (case env of None \<Rightarrow> [] | Some v \<Rightarrow> if v = [] then [] else v))"

definition isAllowedHost :: "jsstring list \<Rightarrow> jsstring \<Rightarrow> bool" where
  "isAllowedHost allowed host =
     (if length allowed = 0 then True else host \<in> set allowed)"

section \<open>Absolute-URL resolver\<close>

text \<open>\<open>try { return new URL(maybe, base).href } catch { return null }\<close>\<close>

definition resolveAbsoluteUrl :: "platform \<Rightarrow> jsstring \<Rightarrow> jsstring \<Rightarrow> jsstring option" where
  "resolveAbsoluteUrl p base maybe =
     (case url_ctor p maybe (Some base) of
        Inl e \<Rightarrow> None
      | Inr u \<Rightarrow> Some (href u))"

section \<open>The scheme test of the rewriter\<close>

text \<open>
  The class \<open>\s\<close> of an ECMAScript regular expression: WhiteSpace and LineTerminator
  code points, all of them in the Basic Multilingual Plane.
\<close>

definition is_space :: "code_unit \<Rightarrow> bool" where
  "is_space c \<longleftrightarrow>
     c \<in> {0x0009, 0x000A, 0x000B, 0x000C, 0x000D, 0x0020, 0x00A0, 0x1680,
          0x2028, 0x2029, 0x202F, 0x205F, 0x3000, 0xFEFF}
     \<or> (0x2000 \<le> c \<and> c \<le> 0x200A)"

text \<open>
  Canonicalisation under the \<open>i\<close> flag without the \<open>u\<close> flag is upper-casing, except
  that a non-ASCII code unit is never mapped to an ASCII one. The pattern is ASCII, so
  only the upper-casing of the ASCII letters is written out: every other code unit is
  left as it is, and whatever its canonical form, it is not a code unit of the pattern.
\<close>

definition canonicalize :: "code_unit \<Rightarrow> code_unit" where
  "canonicalize c = (if 0x61 \<le> c \<and> c \<le> 0x7A then c - 0x20 else c)"

fun match_literal :: "jsstring \<Rightarrow> jsstring \<Rightarrow> bool" where
  "match_literal [] s = True"
| "match_literal (p # ps) [] = False"
| "match_literal (p # ps) (c # cs) =
     (canonicalize c = canonicalize p \<and> match_literal ps cs)"

text \<open>
  \<open>/^\s*(javascript|data):/i.test(val)\<close>. The star is greedy, and giving a space
  back cannot help: the next code unit of the pattern is a letter.
\<close>

definition is_script_or_data :: "jsstring \<Rightarrow> bool" where
  "is_script_or_data val =
     (let rest = dropWhile is_space val
      in match_literal (js ''javascript:'') rest \<or> match_literal (js ''data:'') rest)"

section \<open>encodeURIComponent\<close>

text \<open>The characters \<open>encodeURIComponent\<close> copies: \<open>A-Z a-z 0-9 - _ . ! ~ * ' ( )\<close>.\<close>

definition uriUnescaped :: "code_unit \<Rightarrow> bool" where
  "uriUnescaped c \<longleftrightarrow>
     (0x41 \<le> c \<and> c \<le> 0x5A) \<or> (0x61 \<le> c \<and> c \<le> 0x7A) \<or> (0x30 \<le> c \<and> c \<le> 0x39)
     \<or> c \<in> {0x2D, 0x5F, 0x2E, 0x21, 0x7E, 0x2A, 0x27, 0x28, 0x29}"

definition hexdigit :: "nat \<Rightarrow> code_unit" where
  "hexdigit n = (if n < 10 then of_nat (0x30 + n) else of_nat (0x37 + n))"

definition percent :: "nat \<Rightarrow> jsstring" where
  "percent b = [0x25, hexdigit (b div 16), hexdigit (b mod 16)]"

text \<open>The UTF-8 octets of a code point.\<close>

definition utf8 :: "nat \<Rightarrow> nat list" where
  "utf8 cp =
     (if cp < 0x80 then [cp]
      else if cp < 0x800 then [0xC0 + cp div 64, 0x80 + cp mod 64]
      else if cp < 0x10000 then
        [0xE0 + cp div 4096, 0x80 + (cp div 64) mod 64, 0x80 + cp mod 64]
      else
        [0xF0 + cp div 262144, 0x80 + (cp div 4096) mod 64,
         0x80 + (cp div 64) mod 64, 0x80 + cp mod 64])"

definition is_lead :: "code_unit \<Rightarrow> bool" where
  "is_lead c \<longleftrightarrow> 0xD800 \<le> c \<and> c \<le> 0xDBFF"

definition is_trail :: "code_unit \<Rightarrow> bool" where
  "is_trail c \<longleftrightarrow> 0xDC00 \<le> c \<and> c \<le> 0xDFFF"

definition pair_code_point :: "code_unit \<Rightarrow> code_unit \<Rightarrow> nat" where
  "pair_code_point c d = 0x10000 + (unat c - 0xD800) * 0x400 + (unat d - 0xDC00)"

definition escape_code_point :: "nat \<Rightarrow> jsstring" where
  "escape_code_point cp = concat (map percent (utf8 cp))"

text \<open>
  The abstract operation Encode of ECMAScript with the unescaped set of
  \<open>encodeURIComponent\<close>: an unpaired surrogate throws a \<open>URIError\<close>.
\<close>

fun encodeURIComponent :: "jsstring \<Rightarrow> js_error + jsstring" where
  "encodeURIComponent [] = Inr []"
| "encodeURIComponent (c # cs) =
     (if uriUnescaped c then
        (case encodeURIComponent cs of Inl e \<Rightarrow> Inl e | Inr r \<Rightarrow> Inr (c # r))
      else if is_trail c then Inl URIError
      else if is_lead c then
        (case cs of
           [] \<Rightarrow> Inl URIError
         | d # ds \<Rightarrow>
             if is_trail d then
               (case encodeURIComponent ds of
                  Inl e \<Rightarrow> Inl e
                | Inr r \<Rightarrow> Inr (escape_code_point (pair_code_point c d) @ r))
             else Inl URIError)
      else
        (case encodeURIComponent cs of
           Inl e \<Rightarrow> Inl e
         | Inr r \<Rightarrow> Inr (escape_code_point (unat c) @ r)))"

section \<open>Link rewriter\<close>

definition getAttribute :: "(jsstring \<times> jsstring) list \<Rightarrow> jsstring \<Rightarrow> jsstring option" where
  "getAttribute attrs name = map_of attrs name"

fun setAttribute ::
  "(jsstring \<times> jsstring) list \<Rightarrow> jsstring \<Rightarrow> jsstring \<Rightarrow> (jsstring \<times> jsstring) list" where
  "setAttribute [] name v = [(name, v)]"
| "setAttribute ((n, w) # attrs) name v =
     (if n = name then (n, v) # attrs else (n, w) # setAttribute attrs name v)"

text \<open>
  \<open>rewriteAttr(el, attr)\<close> on the attributes of \<open>el\<close>. \<open>!val\<close> holds for \<open>null\<close> and
  for the empty string, \<open>!abs\<close> likewise. A throw of \<open>encodeURIComponent\<close> is not
  caught here.
\<close>

definition rewriteAttr ::
  "platform \<Rightarrow> jsstring \<Rightarrow> (jsstring \<times> jsstring) list \<Rightarrow> jsstring \<Rightarrow>
     js_error + (jsstring \<times> jsstring) list" where
  "rewriteAttr p baseUrl attrs attr =
     (case getAttribute attrs attr of
        None \<Rightarrow> Inr attrs
      | Some val \<Rightarrow>
          if val = [] then Inr attrs
          else (case resolveAbsoluteUrl p baseUrl val of
                  None \<Rightarrow> Inr attrs
                | Some absUrl \<Rightarrow>
                    if absUrl = [] then Inr attrs
                    else if is_script_or_data val then Inr attrs
                    else (case encodeURIComponent absUrl of
                            Inl e \<Rightarrow> Inl e
                          | Inr enc \<Rightarrow>
                              Inr (setAttribute attrs attr (js ''/proxy_backend?url='' @ enc)))))"

text \<open>
  \<open>doc.querySelectorAll(sel).forEach(f)\<close> on the subtree of a node: the elements are
  visited in document order, \<open>f\<close> replaces the attributes of each element that
  \<open>sel\<close> selects, and the first throw ends the walk. The walk does not enter the
  contents of a template.
\<close>

fun forEach_selected ::
  "(jsstring \<Rightarrow> (jsstring \<times> jsstring) list \<Rightarrow> bool) \<Rightarrow>
   ((jsstring \<times> jsstring) list \<Rightarrow> js_error + (jsstring \<times> jsstring) list) \<Rightarrow>
   node \<Rightarrow> js_error + node"
and forEach_children ::
  "(jsstring \<Rightarrow> (jsstring \<times> jsstring) list \<Rightarrow> bool) \<Rightarrow>
   ((jsstring \<times> jsstring) list \<Rightarrow> js_error + (jsstring \<times> jsstring) list) \<Rightarrow>
   node list \<Rightarrow> js_error + node list" where
  "forEach_selected sel f (Element t attrs cs) =
     (case (if sel t attrs then f attrs else Inr attrs) of
        Inl e \<Rightarrow> Inl e
      | Inr attrs' \<Rightarrow>
          (case forEach_children sel f cs of
             Inl e \<Rightarrow> Inl e
           | Inr cs' \<Rightarrow> Inr (Element t attrs' cs')))"
| "forEach_selected sel f (Text s) = Inr (Text s)"
| "forEach_selected sel f (Comment s) = Inr (Comment s)"
| "forEach_selected sel f (Template attrs content) =
     (case (if sel (js ''template'') attrs then f attrs else Inr attrs) of
        Inl e \<Rightarrow> Inl e
      | Inr attrs' \<Rightarrow> Inr (Template attrs' content))"
| "forEach_children sel f [] = Inr []"
| "forEach_children sel f (n # ns) =
     (case forEach_selected sel f n of
        Inl e \<Rightarrow> Inl e
      | Inr n' \<Rightarrow>
          (case forEach_children sel f ns of
             Inl e \<Rightarrow> Inl e
           | Inr ns' \<Rightarrow> Inr (n' # ns')))"

text \<open>The selector \<open>tag[attr]\<close>: the local name and the presence of the attribute.\<close>

definition selects ::
  "jsstring \<Rightarrow> jsstring \<Rightarrow> jsstring \<Rightarrow> (jsstring \<times> jsstring) list \<Rightarrow> bool" where
  "selects tag attr t attrs \<longleftrightarrow> t = tag \<and> getAttribute attrs attr \<noteq> None"

text \<open>\<open>doc.querySelectorAll('tag[attr]').forEach(el => rewriteAttr(el, 'attr'))\<close>\<close>

definition rewritePass ::
  "platform \<Rightarrow> jsstring \<Rightarrow> jsstring \<Rightarrow> jsstring \<Rightarrow> node \<Rightarrow> js_error + node" where
  "rewritePass p baseUrl tag attr n =
     forEach_selected (selects tag attr) (\<lambda>attrs. rewriteAttr p baseUrl attrs attr) n"

text \<open>The five element/attribute pairs, in the order of the source.\<close>

definition targets :: "(jsstring \<times> jsstring) list" where
  "targets =
     [(js ''a'', js ''href''), (js ''img'', js ''src''), (js ''script'', js ''src''),
      (js ''link'', js ''href''), (js ''form'', js ''action'')]"

fun rewritePasses ::
  "platform \<Rightarrow> jsstring \<Rightarrow> (jsstring \<times> jsstring) list \<Rightarrow> node \<Rightarrow> js_error + node" where
  "rewritePasses p baseUrl [] n = Inr n"
| "rewritePasses p baseUrl ((tag, attr) # ts) n =
     (case rewritePass p baseUrl tag attr n of
        Inl e \<Rightarrow> Inl e
      | Inr n' \<Rightarrow> rewritePasses p baseUrl ts n')"

text \<open>
  The selector \<open>meta[http-equiv="Content-Security-Policy"]\<close>. In an HTML document
  the value of \<open>http-equiv\<close> is compared without regard to ASCII case: two values
  match when upper-casing their ASCII letters (which is what \<open>canonicalize\<close> does)
  makes them equal.
\<close>

definition is_csp_meta :: "jsstring \<Rightarrow> (jsstring \<times> jsstring) list \<Rightarrow> bool" where
  "is_csp_meta t attrs \<longleftrightarrow>
     t = js ''meta'' \<and>
     (case getAttribute attrs (js ''http-equiv'') of
        None \<Rightarrow> False
      | Some v \<Rightarrow> map canonicalize v = map canonicalize (js ''Content-Security-Policy''))"

fun csp_node :: "node \<Rightarrow> bool" where
  "csp_node (Element t attrs cs) = is_csp_meta t attrs"
| "csp_node (Text s) = False"
| "csp_node (Comment s) = False"
| "csp_node (Template attrs content) = is_csp_meta (js ''template'') attrs"

text \<open>
  \<open>querySelectorAll(...).forEach(m => m.remove())\<close> below a node that stays: every
  selected descendant leaves its parent. What is inside the contents of a template is
  not selected.
\<close>

fun remove_csp :: "node \<Rightarrow> node" where
  "remove_csp (Element t attrs cs) =
     Element t attrs (filter (\<lambda>n. \<not> csp_node n) (map remove_csp cs))"
| "remove_csp (Text s) = Text s"
| "remove_csp (Comment s) = Comment s"
| "remove_csp (Template attrs content) = Template attrs content"

text \<open>
  The body of \<open>rewriteHtml\<close> between parsing and serialising: the five passes, then
  the removal of the selected \<open>meta\<close> elements. Every element of a document is in
  the subtree of its root element; when the root itself is selected, its removal
  leaves \<open>documentElement\<close> null.
\<close>

definition rewriteDocument :: "platform \<Rightarrow> jsstring \<Rightarrow> document \<Rightarrow> js_error + document" where
  "rewriteDocument p baseUrl doc =
     (case documentElement doc of
        None \<Rightarrow> Inr doc
      | Some root \<Rightarrow>
          (case rewritePasses p baseUrl targets root of
             Inl e \<Rightarrow> Inl e
           | Inr root' \<Rightarrow>
               Inr (doc\<lparr>documentElement :=
                          (if csp_node root' then None else Some (remove_csp root'))\<rparr>)))"

text \<open>
  \<open>rewriteHtml(baseUrl, html)\<close>. The constructor \<open>new JSDOM(html, { url: baseUrl })\<close>
  may throw; reading \<open>outerHTML\<close> of a null \<open>documentElement\<close> throws.
\<close>

definition rewriteHtml :: "platform \<Rightarrow> jsstring \<Rightarrow> jsstring \<Rightarrow> js_error + jsstring" where
  "rewriteHtml p baseUrl html =
     (case jsdom p html baseUrl of
        Inl e \<Rightarrow> Inl e
      | Inr doc \<Rightarrow>
          (case rewriteDocument p baseUrl doc of
             Inl e \<Rightarrow> Inl e
           | Inr doc' \<Rightarrow>
               (case documentElement doc' of
                  None \<Rightarrow> Inl TypeError_null
                | Some root \<Rightarrow> Inr (outerHTML p root))))"

section \<open>The proxy endpoint\<close>

datatype payload = Chars jsstring | Bytes "8 word list"

text \<open>
  What the handler of \<open>/proxy_backend\<close> does: the response it sends (status, the
  headers it sets itself as \<open>res.set\<close> stores them, body) and the upstream fetches it
  started. The headers that \<open>express\<close> and \<open>helmet\<close> add of their own, and what
  \<open>express\<close> makes of the answer to a conditional or a \<open>HEAD\<close> request, are not part
  of it.
\<close>

record outcome =
  res_status :: nat
  res_headers :: "(string \<times> jsstring) list"
  res_body :: payload
  fetches :: "jsstring list"

text \<open>\<open>String.prototype.includes\<close>\<close>

fun includes_str :: "jsstring \<Rightarrow> jsstring \<Rightarrow> bool" where
  "includes_str [] sub = (sub = [])"
| "includes_str (c # cs) sub = (prefix sub (c # cs) \<or> includes_str cs sub)"

text \<open>\<open>err.message || 'unknown'\<close>\<close>

definition message_or_unknown :: "js_error \<Rightarrow> jsstring" where
  "message_or_unknown err = (if err_message err = [] then js ''unknown'' else err_message err)"

definition fetch_error :: "js_error \<Rightarrow> jsstring list \<Rightarrow> outcome" where
  "fetch_error err fs =
     \<lparr>res_status = 502, res_headers = [],
      res_body = Chars (js ''fetch error: '' @ message_or_unknown err), fetches = fs\<rparr>"

text \<open>
  The handler. \<open>req.query.url\<close> is \<open>None\<close> when the parameter is missing; \<open>!target\<close>
  holds for the empty string as well. Everything after the host check runs inside
  \<open>try { ... } catch (err) { res.status(502)... }\<close>.
\<close>

definition proxy_backend :: "platform \<Rightarrow> jsstring list \<Rightarrow> jsstring option \<Rightarrow> outcome" where
  "proxy_backend p allowed query_url =
     (case query_url of
        None \<Rightarrow>
          \<lparr>res_status = 400, res_headers = [], res_body = Chars (js ''missing url''),
           fetches = []\<rparr>
      | Some target \<Rightarrow>
          if target = [] then
            \<lparr>res_status = 400, res_headers = [], res_body = Chars (js ''missing url''),
             fetches = []\<rparr>
          else
            (case url_ctor p target None of
               Inl e \<Rightarrow>
                 \<lparr>res_status = 400, res_headers = [], res_body = Chars (js ''invalid url''),
                  fetches = []\<rparr>
             | Inr parsed \<Rightarrow>
                 if \<not> isAllowedHost allowed (hostname parsed) then
                   \<lparr>res_status = 403, res_headers = [],
                    res_body = Chars (js ''host not allowed''), fetches = []\<rparr>
                 else
                   (case fetch p target of
                      Inl err \<Rightarrow> fetch_error err [target]
                    | Inr up \<Rightarrow>
                        (let contentType =
                               (case content_type up of
                                  None \<Rightarrow> js ''application/octet-stream''
                                | Some ct \<Rightarrow>
                                    if ct = [] then js ''application/octet-stream'' else ct)
                         in if includes_str contentType (js ''text/html'') then
                              (case text_body up of
                                 Inl err \<Rightarrow> fetch_error err [target]
                               | Inr received \<Rightarrow>
                                   (case rewriteHtml p target (sanitize p received) of
                                      Inl err \<Rightarrow> fetch_error err [target]
                                    | Inr rewritten \<Rightarrow>
                                        \<lparr>res_status = 200,
                                         res_headers =
                                           [(''Content-Type'',
                                               res_set p ''Content-Type''
                                                 (js ''text/html; charset=utf-8'')),
                                            (''X-Frame-Options'',
                                               res_set p ''X-Frame-Options''
                                                 (js ''SAMEORIGIN''))],
                                         res_body = Chars rewritten, fetches = [target]\<rparr>))
                            else
                              (case arrayBuffer up of
                                 Inl err \<Rightarrow> fetch_error err [target]
                               | Inr buffer \<Rightarrow>
                                   \<lparr>res_status = 200,
                                    res_headers =
                                      [(''Content-Type'',
                                          res_set p ''Content-Type'' contentType)],
                                    res_body = Bytes buffer, fetches = [target]\<rparr>)))))"

section \<open>Percent-decoding and the query string, as the specification uses them\<close>

text \<open>
  The specification speaks of percent-decoding a rewritten value and of its single
  query parameter; the repository has no code for either. The definitions of this
  section follow the specification: \<open>decodeURIComponent\<close> is the percent-decoding of
  JavaScript (escapes are octets of UTF-8, every other code unit stands for itself),
  \<open>query_params\<close> splits what follows the first \<open>?\<close> at \<open>&\<close> and each part at its first
  \<open>=\<close>.
\<close>

definition unhex :: "code_unit \<Rightarrow> nat option" where
  "unhex c =
     (if 0x30 \<le> c \<and> c \<le> 0x39 then Some (unat c - 0x30)
      else if 0x41 \<le> c \<and> c \<le> 0x46 then Some (unat c - 0x37)
      else if 0x61 \<le> c \<and> c \<le> 0x66 then Some (unat c - 0x57)
      else None)"

text \<open>One escape \<open>%XY\<close> at the head of a string: its octet and what follows.\<close>

fun take_escape :: "jsstring \<Rightarrow> (nat \<times> jsstring) option" where
  "take_escape (c # h # l # rest) =
     (if c = 0x25 then
        (case unhex h of
           None \<Rightarrow> None
         | Some a \<Rightarrow> (case unhex l of None \<Rightarrow> None | Some b \<Rightarrow> Some (16 * a + b, rest)))
      else None)"
| "take_escape s = None"

text \<open>An escape that is a continuation octet \<open>10xxxxxx\<close>: its six bits.\<close>

definition take_cont :: "jsstring \<Rightarrow> (nat \<times> jsstring) option" where
  "take_cont s =
     (case take_escape s of
        None \<Rightarrow> None
      | Some (b, rest) \<Rightarrow> if 0x80 \<le> b \<and> b < 0xC0 then Some (b - 0x80, rest) else None)"

definition utf16 :: "nat \<Rightarrow> jsstring" where
  "utf16 cp =
     (if cp < 0x10000 then [of_nat cp]
      else [of_nat (0xD800 + (cp - 0x10000) div 0x400),
            of_nat (0xDC00 + (cp - 0x10000) mod 0x400)])"

text \<open>
  The code point of the UTF-8 sequence that starts with the octet \<open>b\<close> and goes on
  with the escapes at the head of \<open>r1\<close>: no overlong form, no surrogate, nothing above
  \<open>0x10FFFF\<close>.
\<close>

definition decode_sequence :: "nat \<Rightarrow> jsstring \<Rightarrow> (jsstring \<times> jsstring) option" where
  "decode_sequence b r1 =
     (if b < 0x80 then Some (utf16 b, r1)
      else if 0xC0 \<le> b \<and> b < 0xE0 then
        (case take_cont r1 of
           None \<Rightarrow> None
         | Some (x, r2) \<Rightarrow>
             (let cp = (b - 0xC0) * 64 + x
              in if cp < 0x80 then None else Some (utf16 cp, r2)))
      else if 0xE0 \<le> b \<and> b < 0xF0 then
        (case take_cont r1 of
           None \<Rightarrow> None
         | Some (x, r2) \<Rightarrow>
             (case take_cont r2 of
                None \<Rightarrow> None
              | Some (y, r3) \<Rightarrow>
                  (let cp = (b - 0xE0) * 4096 + x * 64 + y
                   in if cp < 0x800 \<or> (0xD800 \<le> cp \<and> cp < 0xE000) then None
                      else Some (utf16 cp, r3))))
      else if 0xF0 \<le> b \<and> b < 0xF8 then
        (case take_cont r1 of
           None \<Rightarrow> None
         | Some (x, r2) \<Rightarrow>
             (case take_cont r2 of
                None \<Rightarrow> None
              | Some (y, r3) \<Rightarrow>
                  (case take_cont r3 of
                     None \<Rightarrow> None
                   | Some (z, r4) \<Rightarrow>
                       (let cp = (b - 0xF0) * 262144 + x * 4096 + y * 64 + z
                        in if cp < 0x10000 \<or> 0x10FFFF < cp then None
                           else Some (utf16 cp, r4)))))
      else None)"

text \<open>
  The first code point of an encoded string: a code unit that is not \<open>%\<close> stands for
  itself, an escape starts a UTF-8 sequence.
\<close>

definition decode_one :: "jsstring \<Rightarrow> (jsstring \<times> jsstring) option" where
  "decode_one s =
     (case s of
        [] \<Rightarrow> None
      | c # cs \<Rightarrow>
          if c \<noteq> 0x25 then Some ([c], cs)
          else (case take_escape s of
                  None \<Rightarrow> None
                | Some (b, r1) \<Rightarrow> decode_sequence b r1))"

text \<open>
  The decoding of a whole string. Each step consumes at least one code unit; the test
  on the lengths says so where the recursion can see it.
\<close>

function decodeURIComponent :: "jsstring \<Rightarrow> jsstring option" where
  "decodeURIComponent s =
     (if s = [] then Some []
      else (case decode_one s of
              None \<Rightarrow> None
            | Some (out, rest) \<Rightarrow>
                if length rest < length s then
                  (case decodeURIComponent rest of
                     None \<Rightarrow> None
                   | Some r \<Rightarrow> Some (out @ r))
                else None))"
  by pat_completeness auto
termination
  by (relation "measure length") auto

text \<open>
  The parameters of the query of a URL reference: the part after the first \<open>?\<close> and
  before a \<open>#\<close>, split at \<open>&\<close>; the name of a parameter ends at its first \<open>=\<close>.
\<close>

definition query_params :: "jsstring \<Rightarrow> (jsstring \<times> jsstring) list" where
  "query_params ref =
     map (\<lambda>kv. (takeWhile (\<lambda>c. c \<noteq> 0x3D) kv, drop 1 (dropWhile (\<lambda>c. c \<noteq> 0x3D) kv)))
       (split_on 0x26 (drop 1 (dropWhile (\<lambda>c. c \<noteq> 0x3F) (takeWhile (\<lambda>c. c \<noteq> 0x23) ref))))"

text \<open>\<open>String.prototype.isWellFormed\<close>: no surrogate without its partner.\<close>

fun isWellFormed :: "jsstring \<Rightarrow> bool" where
  "isWellFormed [] = True"
| "isWellFormed [c] = (\<not> is_lead c \<and> \<not> is_trail c)"
| "isWellFormed (c # d # cs) =
     (if is_lead c then is_trail d \<and> isWellFormed cs
      else \<not> is_trail c \<and> isWellFormed (d # cs))"

declare decodeURIComponent.simps [simp del]

text \<open>
  None of the characters that delimit the query (\<open>#\<close>, \<open>?\<close>) or a parameter in it
  (\<open>&\<close>, \<open>=\<close>) occurs.
\<close>

definition reserved_free :: "jsstring \<Rightarrow> bool" where
  "reserved_free s \<longleftrightarrow> (\<forall>c \<in> set s. c \<noteq> 0x23 \<and> c \<noteq> 0x26 \<and> c \<noteq> 0x3D \<and> c \<noteq> 0x3F)"

section \<open>Observing a document\<close>

text \<open>
  The elements of a subtree in document order, each with its attributes: what a
  selector can reach.
\<close>

fun elements :: "node \<Rightarrow> (jsstring \<times> (jsstring \<times> jsstring) list) list" where
  "elements (Element t attrs cs) = (t, attrs) # concat (map elements cs)"
| "elements (Text s) = []"
| "elements (Comment s) = []"
| "elements (Template attrs content) = [(js ''template'', attrs)]"

text \<open>
  The elements that the serialisation of a node writes, in the order of the output:
  for a template the serialiser goes on with its contents.
\<close>

fun written :: "node \<Rightarrow> (jsstring \<times> (jsstring \<times> jsstring) list) list" where
  "written (Element t attrs cs) = (t, attrs) # concat (map written cs)"
| "written (Text s) = []"
| "written (Comment s) = []"
| "written (Template attrs content) = (js ''template'', attrs) # concat (map written content)"

text \<open>Those of them that are written from inside the contents of a template.\<close>

fun in_templates :: "node \<Rightarrow> (jsstring \<times> (jsstring \<times> jsstring) list) list" where
  "in_templates (Element t attrs cs) = concat (map in_templates cs)"
| "in_templates (Text s) = []"
| "in_templates (Comment s) = []"
| "in_templates (Template attrs content) = concat (map written content)"

text \<open>
  What one \<open>forEach\<close> does to an element: the local name stays, and the attributes
  are those that \<open>f\<close> returned if the selector matches, the same ones otherwise.
\<close>

definition visited ::
  "(jsstring \<Rightarrow> (jsstring \<times> jsstring) list \<Rightarrow> bool) \<Rightarrow>
   ((jsstring \<times> jsstring) list \<Rightarrow> js_error + (jsstring \<times> jsstring) list) \<Rightarrow>
   jsstring \<times> (jsstring \<times> jsstring) list \<Rightarrow> jsstring \<times> (jsstring \<times> jsstring) list \<Rightarrow> bool" where
  "visited sel f e e' \<longleftrightarrow>
     fst e' = fst e \<and>
     (if sel (fst e) (snd e) then f (snd e) = Inr (snd e') else snd e' = snd e)"

text \<open>
  Every attribute whose value passes the scheme test has the same value afterwards.
\<close>

definition keeps_scripts ::
  "(jsstring \<times> jsstring) list \<Rightarrow> (jsstring \<times> jsstring) list \<Rightarrow> bool" where
  "keeps_scripts attrs attrs' \<longleftrightarrow>
     (\<forall>a v. getAttribute attrs a = Some v \<and> is_script_or_data v \<longrightarrow>
            getAttribute attrs' a = Some v)"

definition kept ::
  "jsstring \<times> (jsstring \<times> jsstring) list \<Rightarrow> jsstring \<times> (jsstring \<times> jsstring) list \<Rightarrow> bool" where
  "kept e e' \<longleftrightarrow> fst e' = fst e \<and> keeps_scripts (snd e) (snd e')"

section \<open>A sample platform\<close>

text \<open>
  The concrete inputs of the examples below need concrete values of the packages. The
  table lists what \<open>new URL(input, base)\<close> returns at the inputs used; at every other
  input the sample constructor throws, as the real one does on \<open>http://[\<close>.
\<close>

definition sample_urls :: "((jsstring \<times> jsstring option) \<times> url) list" where
  "sample_urls =
     [((js ''https://example.com/start'', None),
         \<lparr>href = js ''https://example.com/start'', hostname = js ''example.com''\<rparr>),
      ((js ''/about'', Some (js ''https://example.com/start'')),
         \<lparr>href = js ''https://example.com/about'', hostname = js ''example.com''\<rparr>),
      ((js ''/about'', Some (js ''https://www.example.org/landing/'')),
         \<lparr>href = js ''https://www.example.org/about'', hostname = js ''www.example.org''\<rparr>),
      (([], Some (js ''https://example.com/start'')),
         \<lparr>href = js ''https://example.com/start'', hostname = js ''example.com''\<rparr>),
      ((js ''javascript:alert(1)'', Some (js ''https://example.com/start'')),
         \<lparr>href = js ''javascript:alert(1)'', hostname = []\<rparr>),
      ((js ''https://example.com/blob'', None),
         \<lparr>href = js ''https://example.com/blob'', hostname = js ''example.com''\<rparr>),
      ((js ''https://example.com/logo.png'', None),
         \<lparr>href = js ''https://example.com/logo.png'', hostname = js ''example.com''\<rparr>),
      ((js ''https://example.com/down'', None),
         \<lparr>href = js ''https://example.com/down'', hostname = js ''example.com''\<rparr>),
      ((js ''https://example.com/style.css'', None),
         \<lparr>href = js ''https://example.com/style.css'', hostname = js ''example.com''\<rparr>),
      ((js ''https://example.com/cut.png'', None),
         \<lparr>href = js ''https://example.com/cut.png'', hostname = js ''example.com''\<rparr>),
      ((js ''https://example.com/cut.html'', None),
         \<lparr>href = js ''https://example.com/cut.html'', hostname = js ''example.com''\<rparr>)]"

definition sample_url_ctor :: "jsstring \<Rightarrow> jsstring option \<Rightarrow> js_error + url" where
  "sample_url_ctor input base =
     (case map_of sample_urls (input, base) of
        None \<Rightarrow> Inl (JsError ''TypeError'' (js ''Invalid URL''))
      | Some u \<Rightarrow> Inr u)"

text \<open>A page with one link that resolves, one that does not and one script link.\<close>

definition sample_page :: node where
  "sample_page =
     Element (js ''html'') []
       [Element (js ''head'') []
          [Element (js ''meta'')
             [(js ''http-equiv'', js ''Content-Security-Policy''),
              (js ''content'', js ''default-src none'')] []],
        Element (js ''body'') []
          [Element (js ''a'') [(js ''href'', js ''http://['')] [Text (js ''broken'')],
           Element (js ''a'') [(js ''href'', js ''/about'')] [Text (js ''About'')],
           Element (js ''a'') [(js ''href'', js ''javascript:alert(1)'')] [Text (js ''run'')]]]"

text \<open>The sample page after the five passes, and after the removal of the \<open>meta\<close>.\<close>

definition sample_links_rewritten :: node where
  "sample_links_rewritten =
     Element (js ''html'') []
       [Element (js ''head'') []
          [Element (js ''meta'')
             [(js ''http-equiv'', js ''Content-Security-Policy''),
              (js ''content'', js ''default-src none'')] []],
        Element (js ''body'') []
          [Element (js ''a'') [(js ''href'', js ''http://['')] [Text (js ''broken'')],
           Element (js ''a'')
             [(js ''href'', js ''/proxy_backend?url=https%3A%2F%2Fexample.com%2Fabout'')]
             [Text (js ''About'')],
           Element (js ''a'') [(js ''href'', js ''javascript:alert(1)'')] [Text (js ''run'')]]]"

definition sample_root_rewritten :: node where
  "sample_root_rewritten =
     Element (js ''html'') []
       [Element (js ''head'') [] [],
        Element (js ''body'') []
          [Element (js ''a'') [(js ''href'', js ''http://['')] [Text (js ''broken'')],
           Element (js ''a'')
             [(js ''href'', js ''/proxy_backend?url=https%3A%2F%2Fexample.com%2Fabout'')]
             [Text (js ''About'')],
           Element (js ''a'') [(js ''href'', js ''javascript:alert(1)'')] [Text (js ''run'')]]]"

text \<open>
  A second page: in its head a \<open>meta\<close> that declares a policy in lower case, and a
  template whose contents hold another one. The parser puts both elements into the
  head and the second \<open>meta\<close> into the contents of the template.
\<close>

definition sample_template_html :: jsstring where
  "sample_template_html =
     js ''<meta http-equiv=content-security-policy content=x><template><meta http-equiv=Content-Security-Policy content=y></template>''"

definition sample_template_page :: node where
  "sample_template_page =
     Element (js ''html'') []
       [Element (js ''head'') []
          [Element (js ''meta'')
             [(js ''http-equiv'', js ''content-security-policy''), (js ''content'', js ''x'')] [],
           Template []
             [Element (js ''meta'')
                [(js ''http-equiv'', js ''Content-Security-Policy''), (js ''content'', js ''y'')]
                []]],
        Element (js ''body'') [] []]"

definition sample_template_rewritten :: node where
  "sample_template_rewritten =
     Element (js ''html'') []
       [Element (js ''head'') []
          [Template []
             [Element (js ''meta'')
                [(js ''http-equiv'', js ''Content-Security-Policy''), (js ''content'', js ''y'')]
                []]],
        Element (js ''body'') [] []]"

definition sample_jsdom :: "jsstring \<Rightarrow> jsstring \<Rightarrow> js_error + document" where
  "sample_jsdom html baseUrl =
     Inr \<lparr>doctype = (if prefix (js ''<!DOCTYPE html>'') html then Some (js ''html'') else None),
          outer_comments = [],
          documentElement =
            Some (if html = sample_template_html then sample_template_page else sample_page)\<rparr>"

text \<open>A serialiser without escaping, enough to tell two documents apart.\<close>

fun sample_outerHTML :: "node \<Rightarrow> jsstring" where
  "sample_outerHTML (Element t attrs cs) =
     js ''<'' @ t @
     concat (map (\<lambda>(n, v). js '' '' @ n @ js ''=['' @ v @ js '']'') attrs) @ js ''>'' @
     concat (map sample_outerHTML cs) @ js ''</'' @ t @ js ''>''"
| "sample_outerHTML (Text s) = s"
| "sample_outerHTML (Comment s) = js ''<!--'' @ s @ js ''-->''"
| "sample_outerHTML (Template attrs content) =
     js ''<template'' @
     concat (map (\<lambda>(n, v). js '' '' @ n @ js ''=['' @ v @ js '']'') attrs) @ js ''>'' @
     concat (map sample_outerHTML content) @ js ''</template>''"

text \<open>
  The upstream of the examples: \<open>https://example.com/start\<close> redirects to
  \<open>https://www.example.org/landing/\<close>, which serves an HTML page;
  \<open>https://example.com/blob\<close> serves four bytes without a content type,
  \<open>https://example.com/logo.png\<close> the same bytes as \<open>image/png\<close> and
  \<open>https://example.com/style.css\<close> two bytes as \<open>text/css\<close>; the connections of
  \<open>https://example.com/cut.png\<close> and \<open>https://example.com/cut.html\<close> break
  while the body is read; every other fetch fails.
\<close>

definition sample_fetch :: "jsstring \<Rightarrow> js_error + upstream" where
  "sample_fetch target =
     (if target = js ''https://example.com/start'' then
        Inr \<lparr>final_url = js ''https://www.example.org/landing/'',
             content_type = Some (js ''text/html; charset=utf-8''),
             text_body = Inr (js ''<!DOCTYPE html><html>''),
             arrayBuffer = Inr []\<rparr>
      else if target = js ''https://example.com/blob'' then
        Inr \<lparr>final_url = js ''https://example.com/blob'',
             content_type = None,
             text_body = Inr [],
             arrayBuffer = Inr [0x89, 0x50, 0x4E, 0x47]\<rparr>
      else if target = js ''https://example.com/logo.png'' then
        Inr \<lparr>final_url = js ''https://example.com/logo.png'',
             content_type = Some (js ''image/png''),
             text_body = Inr [],
             arrayBuffer = Inr [0x89, 0x50, 0x4E, 0x47]\<rparr>
      else if target = js ''https://example.com/style.css'' then
        Inr \<lparr>final_url = js ''https://example.com/style.css'',
             content_type = Some (js ''text/css''),
             text_body = Inr (js ''a{}''),
             arrayBuffer = Inr [0x61, 0x7B, 0x7D]\<rparr>
      else if target = js ''https://example.com/cut.png'' then
        Inr \<lparr>final_url = js ''https://example.com/cut.png'',
             content_type = Some (js ''image/png''),
             text_body = Inl (JsError ''FetchError'' (js ''Premature close'')),
             arrayBuffer = Inl (JsError ''FetchError'' (js ''Premature close''))\<rparr>
      else if target = js ''https://example.com/cut.html'' then
        Inr \<lparr>final_url = js ''https://example.com/cut.html'',
             content_type = Some (js ''text/html''),
             text_body = Inl (JsError ''FetchError'' (js ''Premature close'')),
             arrayBuffer = Inl (JsError ''FetchError'' (js ''Premature close''))\<rparr>
      else Inl (JsError ''FetchError'' (js ''request failed'')))"

text \<open>
  What \<open>res.set\<close> of \<open>express\<close> stores at the values used: it appends
  \<open>; charset=utf-8\<close> to the content type \<open>text/css\<close> and leaves the other values
  of the examples as they are.
\<close>

definition sample_res_set :: "string \<Rightarrow> jsstring \<Rightarrow> jsstring" where
  "sample_res_set field v =
     (if field = ''Content-Type'' \<and> v = js ''text/css'' then js ''text/css; charset=utf-8''
      else v)"

definition sample_platform :: platform where
  "sample_platform =
     \<lparr>url_ctor = sample_url_ctor, jsdom = sample_jsdom, outerHTML = sample_outerHTML,
      sanitize = (\<lambda>html. html), fetch = sample_fetch, res_set = sample_res_set\<rparr>"

section \<open>Facts about the sample platform\<close>

lemma js_Nil: "js [] = []"
  by (simp add: js_def)

lemma sample_url_invalid:
  "url_ctor sample_platform (js ''example'') None = Inl (JsError ''TypeError'' (js ''Invalid URL''))"
  by (simp add: sample_platform_def sample_url_ctor_def sample_urls_def js_def)

lemma sample_url_start:
  "url_ctor sample_platform (js ''https://example.com/start'') None =
     Inr \<lparr>href = js ''https://example.com/start'', hostname = js ''example.com''\<rparr>"
  by (simp add: sample_platform_def sample_url_ctor_def sample_urls_def js_def)

lemma sample_url_down:
  "url_ctor sample_platform (js ''https://example.com/down'') None =
     Inr \<lparr>href = js ''https://example.com/down'', hostname = js ''example.com''\<rparr>"
  by (simp add: sample_platform_def sample_url_ctor_def sample_urls_def js_def)

lemma sample_url_blob:
  "url_ctor sample_platform (js ''https://example.com/blob'') None =
     Inr \<lparr>href = js ''https://example.com/blob'', hostname = js ''example.com''\<rparr>"
  by (simp add: sample_platform_def sample_url_ctor_def sample_urls_def js_def)

lemma sample_fetch_down:
  "fetch sample_platform (js ''https://example.com/down'') =
     Inl (JsError ''FetchError'' (js ''request failed''))"
  by (simp add: sample_platform_def sample_fetch_def js_def)

lemma sample_url_logo:
  "url_ctor sample_platform (js ''https://example.com/logo.png'') None =
     Inr \<lparr>href = js ''https://example.com/logo.png'', hostname = js ''example.com''\<rparr>"
  by (simp add: sample_platform_def sample_url_ctor_def sample_urls_def js_def)

lemma sample_fetch_start:
  "fetch sample_platform (js ''https://example.com/start'') =
     Inr \<lparr>final_url = js ''https://www.example.org/landing/'',
          content_type = Some (js ''text/html; charset=utf-8''),
          text_body = Inr (js ''<!DOCTYPE html><html>''),
          arrayBuffer = Inr []\<rparr>"
  by (simp add: sample_platform_def sample_fetch_def)

lemma sample_fetch_blob:
  "fetch sample_platform (js ''https://example.com/blob'') =
     Inr \<lparr>final_url = js ''https://example.com/blob'',
          content_type = None,
          text_body = Inr [],
          arrayBuffer = Inr [0x89, 0x50, 0x4E, 0x47]\<rparr>"
  by (simp add: sample_platform_def sample_fetch_def js_def)

lemma sample_fetch_logo:
  "fetch sample_platform (js ''https://example.com/logo.png'') =
     Inr \<lparr>final_url = js ''https://example.com/logo.png'',
          content_type = Some (js ''image/png''),
          text_body = Inr [],
          arrayBuffer = Inr [0x89, 0x50, 0x4E, 0x47]\<rparr>"
  by (simp add: sample_platform_def sample_fetch_def js_def)

lemma sample_url_css:
  "url_ctor sample_platform (js ''https://example.com/style.css'') None =
     Inr \<lparr>href = js ''https://example.com/style.css'', hostname = js ''example.com''\<rparr>"
  by (simp add: sample_platform_def sample_url_ctor_def sample_urls_def js_def)

lemma sample_url_cut_png:
  "url_ctor sample_platform (js ''https://example.com/cut.png'') None =
     Inr \<lparr>href = js ''https://example.com/cut.png'', hostname = js ''example.com''\<rparr>"
  by (simp add: sample_platform_def sample_url_ctor_def sample_urls_def js_def)

lemma sample_url_cut_html:
  "url_ctor sample_platform (js ''https://example.com/cut.html'') None =
     Inr \<lparr>href = js ''https://example.com/cut.html'', hostname = js ''example.com''\<rparr>"
  by (simp add: sample_platform_def sample_url_ctor_def sample_urls_def js_def)

lemma sample_fetch_css:
  "fetch sample_platform (js ''https://example.com/style.css'') =
     Inr \<lparr>final_url = js ''https://example.com/style.css'',
          content_type = Some (js ''text/css''),
          text_body = Inr (js ''a{}''),
          arrayBuffer = Inr [0x61, 0x7B, 0x7D]\<rparr>"
  by (simp add: sample_platform_def sample_fetch_def js_def)

lemma sample_fetch_cut_png:
  "fetch sample_platform (js ''https://example.com/cut.png'') =
     Inr \<lparr>final_url = js ''https://example.com/cut.png'',
          content_type = Some (js ''image/png''),
          text_body = Inl (JsError ''FetchError'' (js ''Premature close'')),
          arrayBuffer = Inl (JsError ''FetchError'' (js ''Premature close''))\<rparr>"
  by (simp add: sample_platform_def sample_fetch_def js_def)

lemma sample_fetch_cut_html:
  "fetch sample_platform (js ''https://example.com/cut.html'') =
     Inr \<lparr>final_url = js ''https://example.com/cut.html'',
          content_type = Some (js ''text/html''),
          text_body = Inl (JsError ''FetchError'' (js ''Premature close'')),
          arrayBuffer = Inl (JsError ''FetchError'' (js ''Premature close''))\<rparr>"
  by (simp add: sample_platform_def sample_fetch_def js_def)

lemma sample_sanitize: "sanitize sample_platform html = html"
  by (simp add: sample_platform_def)

lemma sample_rewrite_start:
  "rewriteHtml sample_platform (js ''https://example.com/start'') (js ''<!DOCTYPE html><html>'') =
     Inr (js ''<html><head></head><body><a href=[http://[]>broken</a><a href=[/proxy_backend?url=https%3A%2F%2Fexample.com%2Fabout]>About</a><a href=[javascript:alert(1)]>run</a></body></html>'')"
  by code_simp

lemma sample_rewrite_landing:
  "rewriteHtml sample_platform (js ''https://www.example.org/landing/'')
       (js ''<!DOCTYPE html><html>'') =
     Inr (js ''<html><head></head><body><a href=[http://[]>broken</a><a href=[/proxy_backend?url=https%3A%2F%2Fwww.example.org%2Fabout]>About</a><a href=[javascript:alert(1)]>run</a></body></html>'')"
  by code_simp

lemma sample_url_broken:
  "url_ctor sample_platform (js ''http://['') (Some (js ''https://example.com/start'')) =
     Inl (JsError ''TypeError'' (js ''Invalid URL''))"
  by (simp add: sample_platform_def sample_url_ctor_def sample_urls_def js_def)

lemma sample_passes:
  "rewritePasses sample_platform (js ''https://example.com/start'') targets sample_page =
     Inr sample_links_rewritten"
  by code_simp

lemma sample_removal:
  "\<not> csp_node sample_links_rewritten"
  "remove_csp sample_links_rewritten = sample_root_rewritten"
  by (simp_all add: sample_links_rewritten_def sample_root_rewritten_def is_csp_meta_def
        getAttribute_def canonicalize_def js_def)

lemma sample_rewriteDocument:
  "rewriteDocument sample_platform (js ''https://example.com/start'')
       \<lparr>doctype = Some (js ''html''), outer_comments = [], documentElement = Some sample_page\<rparr> =
     Inr \<lparr>doctype = Some (js ''html''), outer_comments = [],
          documentElement = Some sample_root_rewritten\<rparr>"
  by (simp add: rewriteDocument_def sample_passes sample_removal)

lemma sample_jsdom_doctype:
  "jsdom sample_platform (js ''<!DOCTYPE html><html>'') b =
     Inr \<lparr>doctype = Some (js ''html''), outer_comments = [], documentElement = Some sample_page\<rparr>"
  by (simp add: sample_platform_def sample_jsdom_def sample_template_html_def js_def)

lemma sample_jsdom_plain:
  "jsdom sample_platform (js ''<html>'') b =
     Inr \<lparr>doctype = None, outer_comments = [], documentElement = Some sample_page\<rparr>"
  by (simp add: sample_platform_def sample_jsdom_def sample_template_html_def js_def)

lemma sample_serialised:
  "outerHTML sample_platform sample_root_rewritten =
     js ''<html><head></head><body><a href=[http://[]>broken</a><a href=[/proxy_backend?url=https%3A%2F%2Fexample.com%2Fabout]>About</a><a href=[javascript:alert(1)]>run</a></body></html>''"
  by (simp add: sample_platform_def sample_root_rewritten_def js_def)

lemma sample_jsdom_template:
  "jsdom sample_platform sample_template_html b =
     Inr \<lparr>doctype = None, outer_comments = [], documentElement = Some sample_template_page\<rparr>"
  by (simp add: sample_platform_def sample_jsdom_def) (simp add: sample_template_html_def js_def)

lemma sample_template_passes:
  "rewritePasses sample_platform (js ''https://example.com/start'') targets sample_template_page =
     Inr sample_template_page"
  by code_simp

lemma sample_template_removal:
  "\<not> csp_node sample_template_page"
  "remove_csp sample_template_page = sample_template_rewritten"
  by (simp_all add: sample_template_page_def sample_template_rewritten_def is_csp_meta_def
        getAttribute_def canonicalize_def js_def)

lemma sample_template_rewriteDocument:
  "rewriteDocument sample_platform (js ''https://example.com/start'')
       \<lparr>doctype = None, outer_comments = [], documentElement = Some sample_template_page\<rparr> =
     Inr \<lparr>doctype = None, outer_comments = [],
          documentElement = Some sample_template_rewritten\<rparr>"
  by (simp add: rewriteDocument_def sample_template_passes sample_template_removal)

lemma sample_template_serialised:
  "outerHTML sample_platform sample_template_rewritten =
     js ''<html><head><template><meta http-equiv=[Content-Security-Policy] content=[y]></meta></template></head><body></body></html>''"
  by (simp add: sample_platform_def sample_template_rewritten_def js_def)

lemma sample_children_pass:
  "forEach_children (selects (js ''a'') (js ''href''))
       (\<lambda>as. rewriteAttr sample_platform (js ''https://example.com/start'') as (js ''href''))
       [Element (js ''a'') [(js ''href'', js ''/about'')] [Text (js ''About'')]] =
     Inr [Element (js ''a'')
            [(js ''href'', js ''/proxy_backend?url=https%3A%2F%2Fexample.com%2Fabout'')]
            [Text (js ''About'')]]"
  by code_simp

lemma sample_resolve_about:
  "resolveAbsoluteUrl sample_platform (js ''https://example.com/start'') (js ''/about'') =
     Some (js ''https://example.com/about'')"
  by (simp add: resolveAbsoluteUrl_def sample_platform_def sample_url_ctor_def sample_urls_def js_def)

lemma sample_resolve_empty:
  "resolveAbsoluteUrl sample_platform (js ''https://example.com/start'') [] =
     Some (js ''https://example.com/start'')"
  by (simp add: resolveAbsoluteUrl_def sample_platform_def sample_url_ctor_def sample_urls_def js_def)

lemma sample_rewriteAttr_about:
  "rewriteAttr sample_platform (js ''https://example.com/start'')
       [(js ''href'', js ''/about'')] (js ''href'') =
     Inr [(js ''href'', js ''/proxy_backend?url=https%3A%2F%2Fexample.com%2Fabout'')]"
  by code_simp

lemma js_append: "js (s @ t) = js s @ js t"
  by (simp add: js_def)

section \<open>The packages a function does not call do not matter to it\<close>

lemma resolve_fetch_irrelevant:
  "resolveAbsoluteUrl (p\<lparr>fetch := f\<rparr>) b m = resolveAbsoluteUrl p b m"
  by (simp add: resolveAbsoluteUrl_def)

lemma rewriteAttr_fetch_irrelevant:
  "rewriteAttr (p\<lparr>fetch := f\<rparr>) b attrs a = rewriteAttr p b attrs a"
  by (simp add: rewriteAttr_def resolve_fetch_irrelevant cong: option.case_cong if_cong)

lemma rewritePass_fetch_irrelevant:
  "rewritePass (p\<lparr>fetch := f\<rparr>) b tag a n = rewritePass p b tag a n"
  by (simp add: rewritePass_def rewriteAttr_fetch_irrelevant)

lemma rewritePasses_fetch_irrelevant:
  "rewritePasses (p\<lparr>fetch := f\<rparr>) b ts n = rewritePasses p b ts n"
  by (induction ts arbitrary: n) (auto simp: rewritePass_fetch_irrelevant split: sum.splits)

lemma rewriteHtml_fetch_irrelevant:
  "rewriteHtml (p\<lparr>fetch := f\<rparr>) b h = rewriteHtml p b h"
  by (simp add: rewriteHtml_def rewriteDocument_def rewritePasses_fetch_irrelevant
        cong: option.case_cong sum.case_cong)

lemma includes_str_nonempty: "includes_str ct (js ''text/html'') \<Longrightarrow> ct \<noteq> []"
  by (auto simp: js_def)

section \<open>Host allowlist: exact membership\<close>

text \<open>
  C5. With an empty allowlist every hostname is allowed; with a non-empty allowlist a
  hostname is allowed exactly when it is an element of the list. Equality of strings
  is equality of their code units, so neither another case nor a subdomain matches.
\<close>

theorem isAllowedHost_exact:
  "(allowed = [] \<longrightarrow> isAllowedHost allowed h) \<and>
   (allowed \<noteq> [] \<longrightarrow> (isAllowedHost allowed h \<longleftrightarrow> h \<in> set allowed))"
  by (simp add: isAllowedHost_def)

theorem isAllowedHost_exact_witness:
  "ALLOWED_HOSTS (Some (js ''example.com,'')) = [js ''example.com''] \<and>
   isAllowedHost [js ''example.com''] (js ''example.com'') \<and>
   \<not> isAllowedHost [js ''example.com''] (js ''sub.example.com'') \<and>
   \<not> isAllowedHost [js ''example.com''] (js ''Example.com'') \<and>
   ALLOWED_HOSTS None = [] \<and>
   isAllowedHost [] (js ''evil.example'')"
  using isAllowedHost_exact [of "[js ''example.com'']" "js ''example.com''"]
    isAllowedHost_exact [of "[js ''example.com'']" "js ''sub.example.com''"]
    isAllowedHost_exact [of "[js ''example.com'']" "js ''Example.com''"]
    isAllowedHost_exact [of "[]" "js ''evil.example''"]
  by (simp add: ALLOWED_HOSTS_def js_def)

section \<open>The statuses of the proxy endpoint\<close>

text \<open>
  C4. A request to \<open>/proxy_backend\<close> without a \<open>url\<close> parameter, with an empty one or
  with one that \<open>new URL\<close> rejects is answered with status 400; a parameter that parses
  to a URL whose hostname the allowlist refuses is answered with 403 and no fetch is
  started. For an allowed target the answer is 502 when the fetch fails, when reading
  the body of the upstream fails (as text on the HTML path, as bytes otherwise) and
  when the rewriting throws; it is 200 when all of them succeed. No other status than
  200, 400, 403 and 502 is ever sent.
\<close>

theorem proxy_backend_statuses:
  "(query_url = None \<or> query_url = Some [] \<or>
      (query_url = Some t \<and> url_ctor p t None = Inl e)
    \<longrightarrow> res_status (proxy_backend p allowed query_url) = 400
        \<and> fetches (proxy_backend p allowed query_url) = []) \<and>
   (query_url = Some t \<and> t \<noteq> [] \<and> url_ctor p t None = Inr u
      \<and> \<not> isAllowedHost allowed (hostname u)
    \<longrightarrow> res_status (proxy_backend p allowed query_url) = 403
        \<and> fetches (proxy_backend p allowed query_url) = []) \<and>
   (query_url = Some t \<and> t \<noteq> [] \<and> url_ctor p t None = Inr u
      \<and> isAllowedHost allowed (hostname u) \<and> fetch p t = Inl err
    \<longrightarrow> res_status (proxy_backend p allowed query_url) = 502) \<and>
   (query_url = Some t \<and> t \<noteq> [] \<and> url_ctor p t None = Inr u
      \<and> isAllowedHost allowed (hostname u) \<and> fetch p t = Inr up
      \<and> content_type up = Some ct \<and> includes_str ct (js ''text/html'')
    \<longrightarrow> (text_body up = Inl err \<longrightarrow>
           res_status (proxy_backend p allowed query_url) = 502) \<and>
        (text_body up = Inr received \<and> rewriteHtml p t (sanitize p received) = Inl err \<longrightarrow>
           res_status (proxy_backend p allowed query_url) = 502) \<and>
        (text_body up = Inr received \<and> rewriteHtml p t (sanitize p received) = Inr rewritten \<longrightarrow>
           res_status (proxy_backend p allowed query_url) = 200)) \<and>
   (query_url = Some t \<and> t \<noteq> [] \<and> url_ctor p t None = Inr u
      \<and> isAllowedHost allowed (hostname u) \<and> fetch p t = Inr up
      \<and> (content_type up = None \<or>
          content_type up = Some ct \<and> \<not> includes_str ct (js ''text/html''))
    \<longrightarrow> (arrayBuffer up = Inl err \<longrightarrow>
           res_status (proxy_backend p allowed query_url) = 502) \<and>
        (arrayBuffer up = Inr buffer \<longrightarrow>
           res_status (proxy_backend p allowed query_url) = 200)) \<and>
   res_status (proxy_backend p allowed query_url) \<in> {200, 400, 403, 502}"
proof -
  have plain: "\<not> includes_str (js ''application/octet-stream'') (js ''text/html'')"
    by (simp add: js_def)
  have html: "ct \<noteq> []" if "includes_str ct (js ''text/html'')"
    using that by (rule includes_str_nonempty)
  show ?thesis
    using plain html
    by (auto simp: proxy_backend_def fetch_error_def Let_def
        split: option.splits sum.splits)
qed

theorem proxy_backend_statuses_witness:
  "res_status (proxy_backend sample_platform [] None) = 400 \<and>
   res_status (proxy_backend sample_platform [] (Some (js ''example''))) = 400 \<and>
   res_status (proxy_backend sample_platform [js ''example.org'']
                 (Some (js ''https://example.com/start''))) = 403 \<and>
   fetches (proxy_backend sample_platform [js ''example.org'']
              (Some (js ''https://example.com/start''))) = [] \<and>
   res_status (proxy_backend sample_platform [js ''example.com'']
                 (Some (js ''https://example.com/down''))) = 502 \<and>
   res_status (proxy_backend sample_platform [js ''example.com'']
                 (Some (js ''https://example.com/cut.html''))) = 502 \<and>
   res_status (proxy_backend sample_platform [js ''example.com'']
                 (Some (js ''https://example.com/cut.png''))) = 502 \<and>
   res_status (proxy_backend sample_platform [js ''example.com'']
                 (Some (js ''https://example.com/logo.png''))) = 200 \<and>
   res_status (proxy_backend sample_platform [js ''example.com'']
                 (Some (js ''https://example.com/start''))) = 200"
proof -
  have ne: "js ''https://example.com/start'' \<noteq> []" "js ''https://example.com/down'' \<noteq> []"
    "js ''https://example.com/cut.html'' \<noteq> []" "js ''https://example.com/cut.png'' \<noteq> []"
    "js ''https://example.com/logo.png'' \<noteq> []"
    by (simp_all add: js_def)
  have no: "\<not> isAllowedHost [js ''example.org''] (js ''example.com'')"
    by (simp add: isAllowedHost_def js_def)
  have yes: "isAllowedHost [js ''example.com''] (js ''example.com'')"
    by (simp add: isAllowedHost_def)
  have kinds: "includes_str (js ''text/html'') (js ''text/html'')"
    "includes_str (js ''text/html; charset=utf-8'') (js ''text/html'')"
    "\<not> includes_str (js ''image/png'') (js ''text/html'')"
    by (simp_all add: js_def)
  have rw: "rewriteHtml sample_platform (js ''https://example.com/start'')
      (sanitize sample_platform (js ''<!DOCTYPE html><html>'')) =
     Inr (js ''<html><head></head><body><a href=[http://[]>broken</a><a href=[/proxy_backend?url=https%3A%2F%2Fexample.com%2Fabout]>About</a><a href=[javascript:alert(1)]>run</a></body></html>'')"
    by (simp only: sample_sanitize sample_rewrite_start)
  note th = proxy_backend_statuses [where p = sample_platform]
  have s1: "res_status (proxy_backend sample_platform [] None) = 400"
    using th [where query_url = None and allowed = "[]"] by simp
  have s2: "res_status (proxy_backend sample_platform [] (Some (js ''example''))) = 400"
    using th [where query_url = "Some (js ''example'')" and t = "js ''example''"
        and e = "JsError ''TypeError'' (js ''Invalid URL'')" and allowed = "[]"]
      sample_url_invalid
    by simp
  have s3: "res_status (proxy_backend sample_platform [js ''example.org'']
                 (Some (js ''https://example.com/start''))) = 403 \<and>
      fetches (proxy_backend sample_platform [js ''example.org'']
                 (Some (js ''https://example.com/start''))) = []"
    using th [where query_url = "Some (js ''https://example.com/start'')"
        and t = "js ''https://example.com/start''"
        and u = "\<lparr>href = js ''https://example.com/start'', hostname = js ''example.com''\<rparr>"
        and allowed = "[js ''example.org'']"] sample_url_start no ne(1)
    by simp
  have s4: "res_status (proxy_backend sample_platform [js ''example.com'']
                 (Some (js ''https://example.com/down''))) = 502"
    using th [where query_url = "Some (js ''https://example.com/down'')"
        and t = "js ''https://example.com/down''"
        and u = "\<lparr>href = js ''https://example.com/down'', hostname = js ''example.com''\<rparr>"
        and err = "JsError ''FetchError'' (js ''request failed'')"
        and allowed = "[js ''example.com'']"] sample_url_down sample_fetch_down yes ne(2)
    by simp
  have s5: "res_status (proxy_backend sample_platform [js ''example.com'']
                 (Some (js ''https://example.com/cut.html''))) = 502"
    using th [where query_url = "Some (js ''https://example.com/cut.html'')"
        and t = "js ''https://example.com/cut.html''"
        and u = "\<lparr>href = js ''https://example.com/cut.html'', hostname = js ''example.com''\<rparr>"
        and up = "\<lparr>final_url = js ''https://example.com/cut.html'',
             content_type = Some (js ''text/html''),
             text_body = Inl (JsError ''FetchError'' (js ''Premature close'')),
             arrayBuffer = Inl (JsError ''FetchError'' (js ''Premature close''))\<rparr>"
        and ct = "js ''text/html''"
        and err = "JsError ''FetchError'' (js ''Premature close'')"
        and allowed = "[js ''example.com'']"]
      sample_url_cut_html sample_fetch_cut_html yes ne(3) kinds(1)
    by (simp del: includes_str.simps)
  have s6: "res_status (proxy_backend sample_platform [js ''example.com'']
                 (Some (js ''https://example.com/cut.png''))) = 502"
    using th [where query_url = "Some (js ''https://example.com/cut.png'')"
        and t = "js ''https://example.com/cut.png''"
        and u = "\<lparr>href = js ''https://example.com/cut.png'', hostname = js ''example.com''\<rparr>"
        and up = "\<lparr>final_url = js ''https://example.com/cut.png'',
             content_type = Some (js ''image/png''),
             text_body = Inl (JsError ''FetchError'' (js ''Premature close'')),
             arrayBuffer = Inl (JsError ''FetchError'' (js ''Premature close''))\<rparr>"
        and ct = "js ''image/png''"
        and err = "JsError ''FetchError'' (js ''Premature close'')"
        and allowed = "[js ''example.com'']"]
      sample_url_cut_png sample_fetch_cut_png yes ne(4) kinds(3)
    by (simp del: includes_str.simps)
  have s7: "res_status (proxy_backend sample_platform [js ''example.com'']
                 (Some (js ''https://example.com/logo.png''))) = 200"
    using th [where query_url = "Some (js ''https://example.com/logo.png'')"
        and t = "js ''https://example.com/logo.png''"
        and u = "\<lparr>href = js ''https://example.com/logo.png'', hostname = js ''example.com''\<rparr>"
        and up = "\<lparr>final_url = js ''https://example.com/logo.png'',
             content_type = Some (js ''image/png''), text_body = Inr [],
             arrayBuffer = Inr [0x89, 0x50, 0x4E, 0x47]\<rparr>"
        and ct = "js ''image/png''" and buffer = "[0x89, 0x50, 0x4E, 0x47]"
        and allowed = "[js ''example.com'']"]
      sample_url_logo sample_fetch_logo yes ne(5) kinds(3)
    by (simp del: includes_str.simps)
  have s8: "res_status (proxy_backend sample_platform [js ''example.com'']
                 (Some (js ''https://example.com/start''))) = 200"
    using th [where query_url = "Some (js ''https://example.com/start'')"
        and t = "js ''https://example.com/start''"
        and u = "\<lparr>href = js ''https://example.com/start'', hostname = js ''example.com''\<rparr>"
        and up = "\<lparr>final_url = js ''https://www.example.org/landing/'',
             content_type = Some (js ''text/html; charset=utf-8''),
             text_body = Inr (js ''<!DOCTYPE html><html>''), arrayBuffer = Inr []\<rparr>"
        and ct = "js ''text/html; charset=utf-8''"
        and received = "js ''<!DOCTYPE html><html>''"
        and rewritten = "js ''<html><head></head><body><a href=[http://[]>broken</a><a href=[/proxy_backend?url=https%3A%2F%2Fexample.com%2Fabout]>About</a><a href=[javascript:alert(1)]>run</a></body></html>''"
        and allowed = "[js ''example.com'']"]
      sample_url_start sample_fetch_start rw yes ne(1) kinds(2)
    by (simp del: includes_str.simps)
  from s1 s2 s3 s4 s5 s6 s7 s8 show ?thesis
    by (simp only: simp_thms)
qed

section \<open>Passing other content through\<close>

text \<open>
  C9, as amended. When the fetch of an allowed target succeeds and the body can be
  read, the bytes of the response are the bytes of the upstream. If the upstream has a
  non-empty content type that does not contain \<open>text/html\<close>, the handler hands that
  content type unchanged to \<open>res.set\<close>; if the upstream has no content type or an
  empty one, it hands over \<open>application/octet-stream\<close>. The content type of the
  response is what \<open>res.set\<close> stores for the value it is handed.
\<close>

theorem passthrough_verbatim:
  assumes "t \<noteq> []" and "url_ctor p t None = Inr u" and "isAllowedHost allowed (hostname u)"
    and "fetch p t = Inr up" and "arrayBuffer up = Inr buffer"
  shows "(content_type up = Some ct \<and> ct \<noteq> [] \<and> \<not> includes_str ct (js ''text/html'') \<longrightarrow>
            res_status (proxy_backend p allowed (Some t)) = 200 \<and>
            res_body (proxy_backend p allowed (Some t)) = Bytes buffer \<and>
            res_headers (proxy_backend p allowed (Some t)) =
              [(''Content-Type'', res_set p ''Content-Type'' ct)]) \<and>
         (content_type up = None \<or> content_type up = Some [] \<longrightarrow>
            res_status (proxy_backend p allowed (Some t)) = 200 \<and>
            res_body (proxy_backend p allowed (Some t)) = Bytes buffer \<and>
            res_headers (proxy_backend p allowed (Some t)) =
              [(''Content-Type'', res_set p ''Content-Type'' (js ''application/octet-stream''))])"
proof -
  have "\<not> includes_str (js ''application/octet-stream'') (js ''text/html'')"
    by (simp add: js_def)
  with assms show ?thesis
    by (auto simp: proxy_backend_def Let_def)
qed

theorem passthrough_verbatim_witness:
  "res_body (proxy_backend sample_platform [] (Some (js ''https://example.com/logo.png'')))
     = Bytes [0x89, 0x50, 0x4E, 0x47] \<and>
   res_headers (proxy_backend sample_platform [] (Some (js ''https://example.com/logo.png'')))
     = [(''Content-Type'', js ''image/png'')] \<and>
   res_body (proxy_backend sample_platform [] (Some (js ''https://example.com/style.css'')))
     = Bytes [0x61, 0x7B, 0x7D] \<and>
   res_headers (proxy_backend sample_platform [] (Some (js ''https://example.com/style.css'')))
     = [(''Content-Type'', js ''text/css; charset=utf-8'')] \<and>
   res_body (proxy_backend sample_platform [] (Some (js ''https://example.com/blob'')))
     = Bytes [0x89, 0x50, 0x4E, 0x47] \<and>
   res_headers (proxy_backend sample_platform [] (Some (js ''https://example.com/blob'')))
     = [(''Content-Type'', js ''application/octet-stream'')]"
proof -
  have ne: "js ''https://example.com/logo.png'' \<noteq> []" "js ''https://example.com/blob'' \<noteq> []"
    "js ''https://example.com/style.css'' \<noteq> []" "js ''image/png'' \<noteq> []" "js ''text/css'' \<noteq> []"
    by (simp_all add: js_def)
  have kinds: "\<not> includes_str (js ''image/png'') (js ''text/html'')"
    "\<not> includes_str (js ''text/css'') (js ''text/html'')"
    by (simp_all add: js_def)
  have stored: "res_set sample_platform ''Content-Type'' (js ''image/png'') = js ''image/png''"
    "res_set sample_platform ''Content-Type'' (js ''text/css'') = js ''text/css; charset=utf-8''"
    "res_set sample_platform ''Content-Type'' (js ''application/octet-stream'') =
       js ''application/octet-stream''"
    by (simp_all add: sample_platform_def sample_res_set_def js_def)
  show ?thesis
    using passthrough_verbatim [OF ne(1) sample_url_logo _ sample_fetch_logo,
        where allowed = "[]" and buffer = "[0x89, 0x50, 0x4E, 0x47]" and ct = "js ''image/png''"]
      passthrough_verbatim [OF ne(3) sample_url_css _ sample_fetch_css,
        where allowed = "[]" and buffer = "[0x61, 0x7B, 0x7D]" and ct = "js ''text/css''"]
      passthrough_verbatim [OF ne(2) sample_url_blob _ sample_fetch_blob,
        where allowed = "[]" and buffer = "[0x89, 0x50, 0x4E, 0x47]"]
      kinds ne(4,5)
    by (simp add: isAllowedHost_def stored del: includes_str.simps)
qed

text \<open>
  The claim as stated fails for an upstream that sends no content type: the response
  has a content type that the upstream never sent. It fails for \<open>text/css\<close> as well:
  the response has \<open>text/css; charset=utf-8\<close>.
\<close>

theorem passthrough_content_type_counterexample:
  "map_sum id content_type (fetch sample_platform (js ''https://example.com/blob'')) = Inr None \<and>
   map_of (res_headers (proxy_backend sample_platform [] (Some (js ''https://example.com/blob''))))
     ''Content-Type'' = Some (js ''application/octet-stream'') \<and>
   map_sum id content_type (fetch sample_platform (js ''https://example.com/style.css'')) =
     Inr (Some (js ''text/css'')) \<and>
   map_of (res_headers
       (proxy_backend sample_platform [] (Some (js ''https://example.com/style.css''))))
     ''Content-Type'' = Some (js ''text/css; charset=utf-8'') \<and>
   js ''text/css; charset=utf-8'' \<noteq> js ''text/css''"
proof -
  have ne: "js ''https://example.com/blob'' \<noteq> []" "js ''https://example.com/style.css'' \<noteq> []"
    "js ''text/css'' \<noteq> []"
    by (simp_all add: js_def)
  have kinds: "\<not> includes_str (js ''application/octet-stream'') (js ''text/html'')"
    "\<not> includes_str (js ''text/css'') (js ''text/html'')"
    by (simp_all add: js_def)
  have stored: "res_set sample_platform ''Content-Type'' (js ''text/css'') = js ''text/css; charset=utf-8''"
    "res_set sample_platform ''Content-Type'' (js ''application/octet-stream'') =
       js ''application/octet-stream''"
    by (simp_all add: sample_platform_def sample_res_set_def js_def)
  have differ: "js ''text/css; charset=utf-8'' \<noteq> js ''text/css''"
    by (simp add: js_def)
  show ?thesis
    using ne kinds differ
    by (simp add: sample_fetch_blob sample_url_blob sample_fetch_css sample_url_css
          proxy_backend_def isAllowedHost_def Let_def stored del: includes_str.simps)
qed

section \<open>The base URL of the rewriting\<close>

text \<open>
  C3, as amended. On the HTML path the links are rewritten against the target URL of
  the request: the body of the response is what \<open>rewriteHtml\<close> returns for the target
  as base, and replacing the final URL of the fetch by any other string changes
  nothing of what the handler does.
\<close>

theorem html_base_is_target:
  assumes "t \<noteq> []" and "url_ctor p t None = Inr u" and "isAllowedHost allowed (hostname u)"
    and "fetch p t = Inr up" and "content_type up = Some ct"
    and "includes_str ct (js ''text/html'')" and "text_body up = Inr received"
    and "rewriteHtml p t (sanitize p received) = Inr rewritten"
  shows "res_body (proxy_backend p allowed (Some t)) = Chars rewritten \<and>
         proxy_backend (p\<lparr>fetch := (fetch p)(t := Inr (up\<lparr>final_url := other\<rparr>))\<rparr>)
             allowed (Some t)
           = proxy_backend p allowed (Some t)"
proof -
  have ct: "ct \<noteq> []"
    using assms(6) by (rule includes_str_nonempty)
  show ?thesis
    using assms ct by (simp add: proxy_backend_def Let_def rewriteHtml_fetch_irrelevant)
qed

theorem html_base_is_target_witness:
  "res_body (proxy_backend sample_platform [] (Some (js ''https://example.com/start''))) =
     Chars (js ''<html><head></head><body><a href=[http://[]>broken</a><a href=[/proxy_backend?url=https%3A%2F%2Fexample.com%2Fabout]>About</a><a href=[javascript:alert(1)]>run</a></body></html>'')"
proof -
  have ne: "js ''https://example.com/start'' \<noteq> []"
    by (simp add: js_def)
  have html: "includes_str (js ''text/html; charset=utf-8'') (js ''text/html'')"
    by (simp add: js_def)
  have allowed: "isAllowedHost [] (hostname \<lparr>href = js ''https://example.com/start'',
      hostname = js ''example.com''\<rparr>)"
    by (simp add: isAllowedHost_def)
  have rw: "rewriteHtml sample_platform (js ''https://example.com/start'')
      (sanitize sample_platform (js ''<!DOCTYPE html><html>'')) =
     Inr (js ''<html><head></head><body><a href=[http://[]>broken</a><a href=[/proxy_backend?url=https%3A%2F%2Fexample.com%2Fabout]>About</a><a href=[javascript:alert(1)]>run</a></body></html>'')"
    by (simp only: sample_sanitize sample_rewrite_start)
  show ?thesis
    using html_base_is_target [OF ne sample_url_start allowed sample_fetch_start _ html _ rw]
    by simp
qed

text \<open>
  The claim as stated fails when the fetch is redirected: the upstream of
  \<open>https://example.com/start\<close> ends at \<open>https://www.example.org/landing/\<close>, and the
  link \<open>/about\<close> of the page is rewritten to \<open>https://example.com/about\<close>, not to
  \<open>https://www.example.org/about\<close> as rewriting against the final URL would give.
\<close>

theorem html_base_final_url_counterexample:
  "map_sum id final_url (fetch sample_platform (js ''https://example.com/start'')) =
     Inr (js ''https://www.example.org/landing/'') \<and>
   rewriteHtml sample_platform (js ''https://www.example.org/landing/'')
       (sanitize sample_platform (js ''<!DOCTYPE html><html>'')) =
     Inr (js ''<html><head></head><body><a href=[http://[]>broken</a><a href=[/proxy_backend?url=https%3A%2F%2Fwww.example.org%2Fabout]>About</a><a href=[javascript:alert(1)]>run</a></body></html>'') \<and>
   res_body (proxy_backend sample_platform [] (Some (js ''https://example.com/start''))) \<noteq>
     Chars (js ''<html><head></head><body><a href=[http://[]>broken</a><a href=[/proxy_backend?url=https%3A%2F%2Fwww.example.org%2Fabout]>About</a><a href=[javascript:alert(1)]>run</a></body></html>'')"
proof -
  have ne: "js ''https://example.com/start'' \<noteq> []"
    by (simp add: js_def)
  have html: "includes_str (js ''text/html; charset=utf-8'') (js ''text/html'')"
    by (simp add: js_def)
  have body: "res_body (proxy_backend sample_platform [] (Some (js ''https://example.com/start''))) =
     Chars (js ''<html><head></head><body><a href=[http://[]>broken</a><a href=[/proxy_backend?url=https%3A%2F%2Fexample.com%2Fabout]>About</a><a href=[javascript:alert(1)]>run</a></body></html>'')"
    using ne html includes_str_nonempty [OF html]
    by (simp add: proxy_backend_def sample_url_start sample_fetch_start isAllowedHost_def
          sample_sanitize sample_rewrite_start Let_def del: includes_str.simps)
  have differ: "js ''<html><head></head><body><a href=[http://[]>broken</a><a href=[/proxy_backend?url=https%3A%2F%2Fexample.com%2Fabout]>About</a><a href=[javascript:alert(1)]>run</a></body></html>'' \<noteq>
     js ''<html><head></head><body><a href=[http://[]>broken</a><a href=[/proxy_backend?url=https%3A%2F%2Fwww.example.org%2Fabout]>About</a><a href=[javascript:alert(1)]>run</a></body></html>''"
    by (simp add: js_def)
  show ?thesis
    using differ by (simp add: body sample_fetch_start sample_sanitize sample_rewrite_landing)
qed

section \<open>A reference that does not resolve\<close>

text \<open>
  C7. Whatever the URL constructor throws, \<open>resolveAbsoluteUrl\<close> returns null; its
  result has no other failure. When the value of the attribute does not resolve,
  \<open>rewriteAttr\<close> returns normally with the attributes as they were, and the walk over
  the selected elements goes on with the children of the element and with the nodes
  after it.
\<close>

theorem resolve_failure_is_local:
  "(url_ctor p maybe (Some base) = Inl e \<longrightarrow> resolveAbsoluteUrl p base maybe = None) \<and>
   (getAttribute attrs attr = Some val \<and> resolveAbsoluteUrl p base val = None \<longrightarrow>
      rewriteAttr p base attrs attr = Inr attrs \<and>
      forEach_children (selects tag attr) (\<lambda>as. rewriteAttr p base as attr)
          (Element t attrs cs # rest) =
        (case forEach_children (selects tag attr) (\<lambda>as. rewriteAttr p base as attr) cs of
           Inl e \<Rightarrow> Inl e
         | Inr cs' \<Rightarrow>
             (case forEach_children (selects tag attr) (\<lambda>as. rewriteAttr p base as attr) rest of
                Inl e \<Rightarrow> Inl e
              | Inr rest' \<Rightarrow> Inr (Element t attrs cs' # rest'))))"
  by (auto simp: resolveAbsoluteUrl_def rewriteAttr_def split: sum.splits option.splits)

theorem resolve_failure_is_local_witness:
  "url_ctor sample_platform (js ''http://['') (Some (js ''https://example.com/start'')) =
     Inl (JsError ''TypeError'' (js ''Invalid URL'')) \<and>
   resolveAbsoluteUrl sample_platform (js ''https://example.com/start'') (js ''http://['') = None \<and>
   rewriteAttr sample_platform (js ''https://example.com/start'')
       [(js ''href'', js ''http://['')] (js ''href'') = Inr [(js ''href'', js ''http://['')] \<and>
   forEach_children (selects (js ''a'') (js ''href''))
       (\<lambda>as. rewriteAttr sample_platform (js ''https://example.com/start'') as (js ''href''))
       [Element (js ''a'') [(js ''href'', js ''http://['')] [Text (js ''broken'')],
        Element (js ''a'') [(js ''href'', js ''/about'')] [Text (js ''About'')]] =
     Inr [Element (js ''a'') [(js ''href'', js ''http://['')] [Text (js ''broken'')],
          Element (js ''a'')
            [(js ''href'', js ''/proxy_backend?url=https%3A%2F%2Fexample.com%2Fabout'')]
            [Text (js ''About'')]]"
  using resolve_failure_is_local [where p = sample_platform and maybe = "js ''http://[''"
      and base = "js ''https://example.com/start''"
      and e = "JsError ''TypeError'' (js ''Invalid URL'')"
      and attrs = "[(js ''href'', js ''http://['')]" and attr = "js ''href''"
      and val = "js ''http://[''" and tag = "js ''a''" and t = "js ''a''"
      and cs = "[Text (js ''broken'')]"
      and rest = "[Element (js ''a'') [(js ''href'', js ''/about'')] [Text (js ''About'')]]"]
    sample_url_broken sample_children_pass
  by (simp add: getAttribute_def)

section \<open>Values with a script or data scheme\<close>

lemma getAttribute_setAttribute_other:
  "a \<noteq> attr \<Longrightarrow> getAttribute (setAttribute attrs attr v) a = getAttribute attrs a"
  by (induction attrs attr v rule: setAttribute.induct) (auto simp: getAttribute_def)

lemma rewriteAttr_keeps:
  assumes "rewriteAttr p b attrs attr = Inr attrs'"
  shows "keeps_scripts attrs attrs'"
  unfolding keeps_scripts_def
proof (intro allI impI)
  fix a v
  assume h: "getAttribute attrs a = Some v \<and> is_script_or_data v"
  show "getAttribute attrs' a = Some v"
  proof (cases "a = attr")
    case True
    with assms h show ?thesis
      by (auto simp: rewriteAttr_def split: option.splits if_splits sum.splits)
  next
    case False
    with assms h show ?thesis
      by (auto simp: rewriteAttr_def getAttribute_setAttribute_other
          split: option.splits if_splits sum.splits)
  qed
qed

lemma forEach_elements:
  "forEach_selected sel f n = Inr n' \<Longrightarrow> list_all2 (visited sel f) (elements n) (elements n')"
  "forEach_children sel f ns = Inr ns' \<Longrightarrow>
     list_all2 (visited sel f) (concat (map elements ns)) (concat (map elements ns'))"
proof (induction sel f n and sel f ns arbitrary: n' and ns'
    rule: forEach_selected_forEach_children.induct)
  case (1 sel f t attrs cs)
  from "1.prems" obtain attrs' cs' where
    attrs': "(if sel t attrs then f attrs else Inr attrs) = Inr attrs'" and
    cs': "forEach_children sel f cs = Inr cs'" and
    n': "n' = Element t attrs' cs'"
    by (auto split: sum.splits)
  have head: "visited sel f (t, attrs) (t, attrs')"
    using attrs' by (auto simp: visited_def split: if_splits)
  have "list_all2 (visited sel f) (concat (map elements cs)) (concat (map elements cs'))"
    using "1.IH" attrs' cs' by blast
  with head show ?case
    by (simp add: n')
next
  case (4 sel f attrs content)
  then show ?case
    by (auto simp: visited_def split: sum.splits if_splits)
next
  case (6 sel f n ns)
  from "6.prems" obtain m ms where
    m: "forEach_selected sel f n = Inr m" and
    ms: "forEach_children sel f ns = Inr ms" and
    ns': "ns' = m # ms"
    by (auto split: sum.splits)
  have "list_all2 (visited sel f) (elements n) (elements m)"
    using "6.IH"(1) m by blast
  moreover have "list_all2 (visited sel f) (concat (map elements ns)) (concat (map elements ms))"
    using "6.IH"(2) m ms by blast
  ultimately show ?case
    by (simp add: ns' list_all2_appendI)
qed auto

lemma kept_refl: "kept e e"
  by (simp add: kept_def keeps_scripts_def)

lemma kept_trans: "kept a b \<Longrightarrow> kept b c \<Longrightarrow> kept a c"
  by (auto simp: kept_def keeps_scripts_def)

lemma visited_kept: "visited sel (\<lambda>as. rewriteAttr p b as attr) e e' \<Longrightarrow> kept e e'"
  by (cases "sel (fst e) (snd e)") (auto simp: visited_def kept_def keeps_scripts_def dest: rewriteAttr_keeps)

lemma rewritePass_kept:
  "rewritePass p b tag attr n = Inr n' \<Longrightarrow> list_all2 kept (elements n) (elements n')"
  unfolding rewritePass_def
  by (drule forEach_elements(1)) (erule list_all2_mono, rule visited_kept)

lemma rewritePasses_kept:
  "rewritePasses p b ts n = Inr n' \<Longrightarrow> list_all2 kept (elements n) (elements n')"
proof (induction ts arbitrary: n)
  case Nil
  then show ?case by (simp add: list_all2_refl kept_refl)
next
  case (Cons a ts)
  obtain tag attr where a: "a = (tag, attr)" by (cases a)
  from Cons.prems a obtain m where m: "rewritePass p b tag attr n = Inr m"
    and rest: "rewritePasses p b ts m = Inr n'"
    by (auto split: sum.splits)
  from rewritePass_kept [OF m] Cons.IH [OF rest] show ?case
    by (rule list_all2_trans [rotated]) (rule kept_trans)
qed

lemma canonicalize_eq_upper:
  assumes "canonicalize c = u" and "0x41 \<le> u" and "u \<le> 0x5A"
  shows "c = u \<or> c = u + 0x20"
proof (cases "0x61 \<le> c \<and> c \<le> 0x7A")
  case True
  with assms(1) have "c - 0x20 = u" by (simp add: canonicalize_def)
  then have "c = u + 0x20" by (simp add: diff_eq_eq)
  then show ?thesis ..
next
  case False
  with assms(1) show ?thesis by (simp add: canonicalize_def)
qed

lemma letter_not_space:
  assumes "canonicalize c = 0x4A \<or> canonicalize c = 0x44"
  shows "\<not> is_space c"
proof -
  from assms have "c = 0x4A \<or> c = 0x6A \<or> c = 0x44 \<or> c = 0x64"
    using canonicalize_eq_upper [of c "0x4A"] canonicalize_eq_upper [of c "0x44"] by auto
  then show ?thesis
    by (auto simp: is_space_def)
qed

lemma match_literal_append:
  "map canonicalize s = map canonicalize ps \<Longrightarrow>
     match_literal (ps @ qs) (s @ r) = match_literal qs r"
proof (induction ps arbitrary: s)
  case Nil
  then show ?case by simp
next
  case (Cons p ps)
  then obtain c cs where "s = c # cs" by (cases s) auto
  with Cons show ?case by simp
qed

lemma is_script_or_data_shape:
  assumes ws: "\<forall>c\<in>set ws. is_space c"
    and s: "map canonicalize s = map canonicalize (js ''javascript'') \<or>
            map canonicalize s = map canonicalize (js ''data'')"
  shows "is_script_or_data (ws @ s @ js '':'' @ rest)"
proof -
  from s obtain c cs where c: "s = c # cs" and "canonicalize c = 0x4A \<or> canonicalize c = 0x44"
    by (cases s) (auto simp: js_def canonicalize_def)
  then have "\<not> is_space c" by (simp add: letter_not_space)
  with ws c have drop: "dropWhile is_space (ws @ s @ js '':'' @ rest) = s @ js '':'' @ rest"
    by (simp add: dropWhile_append2)
  have colon: "match_literal (js '':'') (js '':'' @ rest)"
    by (simp add: js_def)
  have j: "js ''javascript:'' = js ''javascript'' @ js '':''" and d: "js ''data:'' = js ''data'' @ js '':''"
    by (simp_all add: js_def)
  from s show ?thesis
  proof
    assume "map canonicalize s = map canonicalize (js ''javascript'')"
    then have "match_literal (js ''javascript:'') (s @ js '':'' @ rest)"
      unfolding j by (simp only: match_literal_append colon)
    then show ?thesis by (simp add: is_script_or_data_def drop)
  next
    assume "map canonicalize s = map canonicalize (js ''data'')"
    then have "match_literal (js ''data:'') (s @ js '':'' @ rest)"
      unfolding d by (simp only: match_literal_append colon)
    then show ?thesis by (simp add: is_script_or_data_def drop)
  qed
qed

text \<open>
  C2. Let a value consist of whitespace, then \<open>javascript\<close> or \<open>data\<close> in any
  mixture of upper and lower case, then a colon, then anything. \<open>rewriteAttr\<close> leaves
  the attributes of an element unchanged when the attribute it is called for has such a
  value; and after the passes over the five element/attribute pairs every element of
  the document has its local name and each attribute with such a value still has it.
\<close>

theorem script_and_data_untouched:
  assumes "\<forall>c\<in>set ws. is_space c"
    and "map canonicalize s = map canonicalize (js ''javascript'') \<or>
         map canonicalize s = map canonicalize (js ''data'')"
    and "val = ws @ s @ js '':'' @ rest"
  shows "(getAttribute attrs attr = Some val \<longrightarrow> rewriteAttr p baseUrl attrs attr = Inr attrs) \<and>
         (rewritePasses p baseUrl targets root = Inr root' \<longrightarrow>
            list_all2 (\<lambda>e e'. fst e' = fst e \<and>
                         (\<forall>a. getAttribute (snd e) a = Some val \<longrightarrow>
                              getAttribute (snd e') a = Some val))
              (elements root) (elements root'))"
proof -
  have val: "is_script_or_data val"
    unfolding assms(3) using assms(1,2) by (rule is_script_or_data_shape)
  have one: "rewriteAttr p baseUrl attrs attr = Inr attrs" if "getAttribute attrs attr = Some val"
    using that val by (simp add: rewriteAttr_def split: option.splits)
  have all: "list_all2 (\<lambda>e e'. fst e' = fst e \<and>
                         (\<forall>a. getAttribute (snd e) a = Some val \<longrightarrow>
                              getAttribute (snd e') a = Some val))
              (elements root) (elements root')"
    if "rewritePasses p baseUrl targets root = Inr root'"
    using rewritePasses_kept [OF that]
    by (rule list_all2_mono) (use val in \<open>auto simp: kept_def keeps_scripts_def\<close>)
  from one all show ?thesis by blast
qed

theorem script_and_data_untouched_witness:
  "is_space 0x09 \<and> is_space 0x20 \<and>
   map canonicalize (js ''JavaScript'') = map canonicalize (js ''javascript'') \<and>
   rewriteAttr sample_platform (js ''https://example.com/start'')
       [(js ''href'', [0x09, 0x20] @ js ''JavaScript'' @ js '':'' @ js ''alert(1)'')] (js ''href'') =
     Inr [(js ''href'', [0x09, 0x20] @ js ''JavaScript'' @ js '':'' @ js ''alert(1)'')] \<and>
   rewritePasses sample_platform (js ''https://example.com/start'') targets sample_page =
     Inr sample_links_rewritten \<and>
   list_all2 (\<lambda>e e'. fst e' = fst e \<and>
               (\<forall>a. getAttribute (snd e) a = Some ([] @ js ''javascript'' @ js '':'' @ js ''alert(1)'') \<longrightarrow>
                    getAttribute (snd e') a = Some ([] @ js ''javascript'' @ js '':'' @ js ''alert(1)'')))
     (elements sample_page) (elements sample_links_rewritten)"
proof -
  have sp: "\<forall>c\<in>set [0x09, 0x20]. is_space c" "\<forall>c\<in>set []. is_space c"
    by (simp_all add: is_space_def)
  have up: "map canonicalize (js ''JavaScript'') = map canonicalize (js ''javascript'') \<or>
            map canonicalize (js ''JavaScript'') = map canonicalize (js ''data'')"
    "map canonicalize (js ''javascript'') = map canonicalize (js ''javascript'') \<or>
     map canonicalize (js ''javascript'') = map canonicalize (js ''data'')"
    by (simp_all add: js_def canonicalize_def)
  have get: "getAttribute [(js ''href'', [0x09, 0x20] @ js ''JavaScript'' @ js '':'' @ js ''alert(1)'')]
      (js ''href'') = Some ([0x09, 0x20] @ js ''JavaScript'' @ js '':'' @ js ''alert(1)'')"
    by (simp add: getAttribute_def)
  show ?thesis
    using script_and_data_untouched [OF sp(1) up(1) refl, where rest = "js ''alert(1)''"
        and attrs = "[(js ''href'', [0x09, 0x20] @ js ''JavaScript'' @ js '':'' @ js ''alert(1)'')]"
        and attr = "js ''href''" and p = sample_platform
        and baseUrl = "js ''https://example.com/start''"]
      script_and_data_untouched [OF sp(2) up(2) refl, where rest = "js ''alert(1)''"
        and p = sample_platform and baseUrl = "js ''https://example.com/start''"
        and root = sample_page and root' = sample_links_rewritten]
      get sample_passes sp(1) up(1)
    by (simp add: js_def canonicalize_def)
qed

section \<open>Removal of the policy declared in the document\<close>

lemma csp_node_remove_csp: "csp_node (remove_csp n) = csp_node n"
  by (cases n) auto

lemma remove_csp_clean:
  "\<not> csp_node n \<Longrightarrow> e \<in> set (elements (remove_csp n)) \<Longrightarrow> \<not> is_csp_meta (fst e) (snd e)"
proof (induction n arbitrary: e)
  case (Element t attrs cs)
  from Element.prems(2) consider "e = (t, attrs)"
    | c where "c \<in> set cs" and "\<not> csp_node (remove_csp c)" and "e \<in> set (elements (remove_csp c))"
    by auto
  then show ?case
  proof cases
    case 1
    with Element.prems(1) show ?thesis by simp
  next
    case 2
    then show ?thesis
      using Element.IH [of c e] by (simp add: csp_node_remove_csp)
  qed
qed auto

lemma set_written: "set (written n) = set (elements n) \<union> set (in_templates n)"
  by (induction n) auto

lemma forEach_in_templates:
  "forEach_selected sel f n = Inr n' \<Longrightarrow> in_templates n' = in_templates n"
  "forEach_children sel f ns = Inr ns' \<Longrightarrow>
     concat (map in_templates ns') = concat (map in_templates ns)"
proof (induction sel f n and sel f ns arbitrary: n' and ns'
    rule: forEach_selected_forEach_children.induct)
  case (1 sel f t attrs cs)
  from "1.prems" obtain attrs' cs' where
    attrs': "(if sel t attrs then f attrs else Inr attrs) = Inr attrs'" and
    cs': "forEach_children sel f cs = Inr cs'" and
    n': "n' = Element t attrs' cs'"
    by (auto split: sum.splits)
  have "concat (map in_templates cs') = concat (map in_templates cs)"
    using "1.IH" attrs' cs' by blast
  then show ?case
    by (simp add: n')
next
  case (4 sel f attrs content)
  then show ?case
    by (auto split: sum.splits)
next
  case (6 sel f n ns)
  from "6.prems" obtain m ms where
    m: "forEach_selected sel f n = Inr m" and
    ms: "forEach_children sel f ns = Inr ms" and
    ns': "ns' = m # ms"
    by (auto split: sum.splits)
  have "in_templates m = in_templates n"
    using "6.IH"(1) m by blast
  moreover have "concat (map in_templates ms) = concat (map in_templates ns)"
    using "6.IH"(2) m ms by blast
  ultimately show ?case
    by (simp add: ns')
qed auto

lemma rewritePasses_in_templates:
  "rewritePasses p b ts n = Inr n' \<Longrightarrow> in_templates n' = in_templates n"
proof (induction ts arbitrary: n)
  case Nil
  then show ?case by simp
next
  case (Cons a ts)
  obtain tag attr where a: "a = (tag, attr)" by (cases a)
  from Cons.prems a obtain m where m: "rewritePass p b tag attr n = Inr m"
    and rest: "rewritePasses p b ts m = Inr n'"
    by (auto split: sum.splits)
  from m have "in_templates m = in_templates n"
    unfolding rewritePass_def by (rule forEach_in_templates(1))
  with Cons.IH [OF rest] show ?case by simp
qed

lemma remove_csp_in_templates: "set (in_templates (remove_csp n)) \<subseteq> set (in_templates n)"
  by (induction n) auto

text \<open>
  C8, as amended. When \<open>rewriteHtml\<close> returns, it returns the serialisation of a root
  element in whose tree no \<open>meta\<close> element has an attribute \<open>http-equiv\<close> whose value
  is \<open>Content-Security-Policy\<close> in any mixture of upper and lower case. Such an
  element is written to the output only from inside the contents of a template, where
  the parsed document had it already.
\<close>

theorem csp_meta_removed:
  assumes "jsdom p html baseUrl = Inr doc" and "rewriteDocument p baseUrl doc = Inr doc'"
    and "documentElement doc' = Some root'"
  shows "rewriteHtml p baseUrl html = Inr (outerHTML p root') \<and>
         (\<forall>e \<in> set (elements root').
            \<not> (fst e = js ''meta'' \<and>
               (\<exists>v. getAttribute (snd e) (js ''http-equiv'') = Some v \<and>
                    map canonicalize v = map canonicalize (js ''Content-Security-Policy'')))) \<and>
         (\<exists>root. documentElement doc = Some root \<and>
            (\<forall>e \<in> set (written root').
               is_csp_meta (fst e) (snd e) \<longrightarrow> e \<in> set (in_templates root)))"
proof -
  from assms(2,3) obtain root r where root: "documentElement doc = Some root"
    and r: "rewritePasses p baseUrl targets root = Inr r"
    and keep: "\<not> csp_node r" and root': "root' = remove_csp r"
    by (auto simp: rewriteDocument_def split: option.splits sum.splits if_splits)
  have clean: "\<forall>e \<in> set (elements root'). \<not> is_csp_meta (fst e) (snd e)"
    using keep root' remove_csp_clean by blast
  have "set (in_templates root') \<subseteq> set (in_templates root)"
    using remove_csp_in_templates [of r] rewritePasses_in_templates [OF r] root' by simp
  with clean have inside: "\<forall>e \<in> set (written root').
      is_csp_meta (fst e) (snd e) \<longrightarrow> e \<in> set (in_templates root)"
    by (auto simp: set_written)
  have "rewriteHtml p baseUrl html = Inr (outerHTML p root')"
    using assms by (simp add: rewriteHtml_def)
  moreover from clean have "\<forall>e \<in> set (elements root').
      \<not> (fst e = js ''meta'' \<and>
         (\<exists>v. getAttribute (snd e) (js ''http-equiv'') = Some v \<and>
              map canonicalize v = map canonicalize (js ''Content-Security-Policy'')))"
    by (auto simp: is_csp_meta_def)
  ultimately show ?thesis
    using root inside by blast
qed

theorem csp_meta_removed_witness:
  "(js ''meta'', [(js ''http-equiv'', js ''content-security-policy''), (js ''content'', js ''x'')])
     \<in> set (elements sample_template_page) \<and>
   rewriteHtml sample_platform (js ''https://example.com/start'') sample_template_html =
     Inr (js ''<html><head><template><meta http-equiv=[Content-Security-Policy] content=[y]></meta></template></head><body></body></html>'') \<and>
   map fst (elements sample_template_rewritten) =
     [js ''html'', js ''head'', js ''template'', js ''body''] \<and>
   rewriteHtml sample_platform (js ''https://example.com/start'') (js ''<!DOCTYPE html><html>'') =
     Inr (js ''<html><head></head><body><a href=[http://[]>broken</a><a href=[/proxy_backend?url=https%3A%2F%2Fexample.com%2Fabout]>About</a><a href=[javascript:alert(1)]>run</a></body></html>'') \<and>
   map fst (elements sample_root_rewritten) =
     [js ''html'', js ''head'', js ''body'', js ''a'', js ''a'', js ''a'']"
  using csp_meta_removed [OF sample_jsdom_doctype sample_rewriteDocument, of sample_root_rewritten]
    csp_meta_removed [OF sample_jsdom_template sample_template_rewriteDocument,
      of sample_template_rewritten]
  by (simp add: sample_serialised sample_template_serialised)
     (simp add: sample_template_page_def sample_template_rewritten_def sample_root_rewritten_def)

text \<open>
  The claim as stated fails for a \<open>meta\<close> element inside a template: the input has it,
  no selector reaches it, and the output has it still.
\<close>

theorem csp_meta_in_template_counterexample:
  "jsdom sample_platform sample_template_html (js ''https://example.com/start'') =
     Inr \<lparr>doctype = None, outer_comments = [], documentElement = Some sample_template_page\<rparr> \<and>
   (js ''meta'', [(js ''http-equiv'', js ''Content-Security-Policy''), (js ''content'', js ''y'')])
     \<in> set (written sample_template_page) \<and>
   rewriteDocument sample_platform (js ''https://example.com/start'')
       \<lparr>doctype = None, outer_comments = [], documentElement = Some sample_template_page\<rparr> =
     Inr \<lparr>doctype = None, outer_comments = [],
          documentElement = Some sample_template_rewritten\<rparr> \<and>
   (js ''meta'', [(js ''http-equiv'', js ''Content-Security-Policy''), (js ''content'', js ''y'')])
     \<in> set (written sample_template_rewritten) \<and>
   rewriteHtml sample_platform (js ''https://example.com/start'') sample_template_html =
     Inr (js ''<html><head><template><meta http-equiv=[Content-Security-Policy] content=[y]></meta></template></head><body></body></html>'')"
proof -
  have "rewriteHtml sample_platform (js ''https://example.com/start'') sample_template_html =
      Inr (outerHTML sample_platform sample_template_rewritten)"
    by (simp add: rewriteHtml_def sample_jsdom_template sample_template_rewriteDocument)
  then show ?thesis
    by (simp add: sample_jsdom_template sample_template_rewriteDocument
          sample_template_serialised)
       (simp add: sample_template_page_def sample_template_rewritten_def)
qed

section \<open>What is serialised\<close>

lemma rewriteDocument_root_only:
  "rewriteDocument p b (doc\<lparr>doctype := d, outer_comments := cs\<rparr>) =
     map_sum id (\<lambda>doc'. doc'\<lparr>doctype := d, outer_comments := cs\<rparr>) (rewriteDocument p b doc)"
  by (simp add: rewriteDocument_def split: option.splits sum.splits)

text \<open>
  C10. What \<open>rewriteHtml\<close> returns is the serialisation of the root element of the
  rewritten document and of nothing else: an input whose document differs only in the
  doctype and in what else lies outside the root element gives the same output.
\<close>

theorem rewriteHtml_serialises_root:
  assumes "jsdom p html baseUrl = Inr doc" and "rewriteDocument p baseUrl doc = Inr doc'"
    and "documentElement doc' = Some root'"
  shows "rewriteHtml p baseUrl html = Inr (outerHTML p root') \<and>
         (jsdom p html2 baseUrl = Inr (doc\<lparr>doctype := d, outer_comments := cs\<rparr>) \<longrightarrow>
            rewriteHtml p baseUrl html2 = Inr (outerHTML p root'))"
  using assms by (simp add: rewriteHtml_def rewriteDocument_root_only)

theorem rewriteHtml_serialises_root_witness:
  "rewriteHtml sample_platform (js ''https://example.com/start'') (js ''<!DOCTYPE html><html>'') =
     Inr (js ''<html><head></head><body><a href=[http://[]>broken</a><a href=[/proxy_backend?url=https%3A%2F%2Fexample.com%2Fabout]>About</a><a href=[javascript:alert(1)]>run</a></body></html>'') \<and>
   rewriteHtml sample_platform (js ''https://example.com/start'') (js ''<html>'') =
     Inr (js ''<html><head></head><body><a href=[http://[]>broken</a><a href=[/proxy_backend?url=https%3A%2F%2Fexample.com%2Fabout]>About</a><a href=[javascript:alert(1)]>run</a></body></html>'')"
  using rewriteHtml_serialises_root [OF sample_jsdom_doctype sample_rewriteDocument,
      where root' = sample_root_rewritten and ?html2.0 = "js ''<html>''" and d = None
        and cs = "[]"] sample_jsdom_plain
  by (simp add: sample_serialised)

section \<open>The rewritten value and its decoding\<close>

lemma unat_code_unit: "n < 65536 \<Longrightarrow> unat (of_nat n :: code_unit) = n"
  by (simp add: unat_of_nat)

lemma unat_hexdigit:
  "n < 16 \<Longrightarrow> unat (hexdigit n) = (if n < 10 then 0x30 + n else 0x37 + n)"
  unfolding hexdigit_def by (simp only: unat_code_unit split: if_splits) (simp add: unat_code_unit del: of_nat_add)

lemma unhex_nat:
  "unhex c =
     (if 0x30 \<le> unat c \<and> unat c \<le> 0x39 then Some (unat c - 0x30)
      else if 0x41 \<le> unat c \<and> unat c \<le> 0x46 then Some (unat c - 0x37)
      else if 0x61 \<le> unat c \<and> unat c \<le> 0x66 then Some (unat c - 0x57)
      else None)"
  by (simp add: unhex_def word_le_nat_alt)

lemma unhex_hexdigit: "n < 16 \<Longrightarrow> unhex (hexdigit n) = Some n"
  by (simp add: unhex_nat unat_hexdigit)

lemma take_escape_percent: "b < 256 \<Longrightarrow> take_escape (percent b @ r) = Some (b, r)"
  by (simp add: percent_def unhex_hexdigit)

lemma take_cont_percent: "x < 64 \<Longrightarrow> take_cont (percent (0x80 + x) @ r) = Some (x, r)"
  by (simp add: take_cont_def take_escape_percent)

lemma decode_one_percent: "b < 256 \<Longrightarrow> decode_one (percent b @ r) = decode_sequence b r"
proof -
  assume b: "b < 256"
  have "percent b @ r = 0x25 # (hexdigit (b div 16) # hexdigit (b mod 16) # r)"
    by (simp add: percent_def)
  then have "decode_one (percent b @ r) =
      (case take_escape (percent b @ r) of None \<Rightarrow> None | Some (b, r1) \<Rightarrow> decode_sequence b r1)"
    by (simp only: decode_one_def list.case) simp
  then show ?thesis
    by (simp only: take_escape_percent [OF b] option.case prod.case)
qed

lemma two_octets:
  assumes "0x80 \<le> cp" and "cp < 0x800"
  shows "decode_sequence (0xC0 + cp div 64) (percent (0x80 + cp mod 64) @ r) = Some (utf16 cp, r)"
proof -
  have x: "cp mod 64 < 64" by simp
  have b: "0xC0 + cp div 64 < 0xE0" using assms by simp
  have cp: "(0xC0 + cp div 64 - 0xC0) * 64 + cp mod 64 = cp" by simp
  show ?thesis
    unfolding decode_sequence_def take_cont_percent [OF x]
    using b assms(1) by (simp add: cp del: mult_div_mod_eq div_mult_mod_eq)
qed

lemma regroup: "(a * 64 + b) * k = a * (64 * k) + b * (k::nat)"
  by (simp add: algebra_simps)

lemma split3: "(cp div 4096) * 4096 + ((cp div 64) mod 64) * 64 + cp mod 64 = (cp::nat)"
proof -
  define n where "n = cp div 64"
  have "cp div 4096 = n div 64"
    by (simp add: n_def div_mult2_eq [symmetric])
  moreover have "(n div 64) * 4096 + (n mod 64) * 64 = n * 64"
    using regroup [of "n div 64" "n mod 64" 64] by (simp only: div_mult_mod_eq)
  ultimately have "(cp div 4096) * 4096 + ((cp div 64) mod 64) * 64 = (cp div 64) * 64"
    by (simp only: n_def)
  then show ?thesis by simp
qed

lemma split4:
  "(cp div 262144) * 262144 + ((cp div 4096) mod 64) * 4096 + ((cp div 64) mod 64) * 64 + cp mod 64
     = (cp::nat)"
proof -
  define n where "n = cp div 4096"
  have "cp div 262144 = n div 64"
    by (simp add: n_def div_mult2_eq [symmetric])
  moreover have "(n div 64) * 262144 + (n mod 64) * 4096 = n * 4096"
    using regroup [of "n div 64" "n mod 64" 4096] by (simp only: div_mult_mod_eq)
  ultimately have "(cp div 262144) * 262144 + ((cp div 4096) mod 64) * 4096 = (cp div 4096) * 4096"
    by (simp only: n_def)
  with split3 [of cp] show ?thesis by simp
qed

lemma three_octets:
  assumes "0x800 \<le> cp" and "cp < 0x10000" and "\<not> (0xD800 \<le> cp \<and> cp < 0xE000)"
  shows "decode_sequence (0xE0 + cp div 4096)
           (percent (0x80 + (cp div 64) mod 64) @ percent (0x80 + cp mod 64) @ r) = Some (utf16 cp, r)"
proof -
  have x: "(cp div 64) mod 64 < 64" and y: "cp mod 64 < 64" by simp_all
  have b: "0xE0 + cp div 4096 < 0xF0" using assms by simp
  have cp: "(0xE0 + cp div 4096 - 0xE0) * 4096 + (cp div 64) mod 64 * 64 + cp mod 64 = cp"
    using split3 [of cp] by simp
  have "decode_sequence (0xE0 + cp div 4096)
           (percent (0x80 + (cp div 64) mod 64) @ percent (0x80 + cp mod 64) @ r) =
        (let cp' = (0xE0 + cp div 4096 - 0xE0) * 4096 + (cp div 64) mod 64 * 64 + cp mod 64
         in if cp' < 0x800 \<or> (0xD800 \<le> cp' \<and> cp' < 0xE000) then None
            else Some (utf16 cp', r))"
    using b by (simp add: decode_sequence_def take_cont_percent [OF x] take_cont_percent [OF y])
  also have "\<dots> = Some (utf16 cp, r)"
    unfolding cp Let_def using assms by simp
  finally show ?thesis .
qed

lemma four_octets:
  assumes "0x10000 \<le> cp" and "cp < 0x110000"
  shows "decode_sequence (0xF0 + cp div 262144)
           (percent (0x80 + (cp div 4096) mod 64) @ percent (0x80 + (cp div 64) mod 64) @
            percent (0x80 + cp mod 64) @ r) = Some (utf16 cp, r)"
proof -
  have x: "(cp div 4096) mod 64 < 64" and y: "(cp div 64) mod 64 < 64" and z: "cp mod 64 < 64"
    by simp_all
  have b: "0xF0 + cp div 262144 < 0xF8" using assms by simp
  have cp: "(0xF0 + cp div 262144 - 0xF0) * 262144 + (cp div 4096) mod 64 * 4096 +
      (cp div 64) mod 64 * 64 + cp mod 64 = cp"
    using split4 [of cp] by simp
  have "decode_sequence (0xF0 + cp div 262144)
           (percent (0x80 + (cp div 4096) mod 64) @ percent (0x80 + (cp div 64) mod 64) @
            percent (0x80 + cp mod 64) @ r) =
        (let cp' = (0xF0 + cp div 262144 - 0xF0) * 262144 + (cp div 4096) mod 64 * 4096 +
                   (cp div 64) mod 64 * 64 + cp mod 64
         in if cp' < 0x10000 \<or> 0x10FFFF < cp' then None else Some (utf16 cp', r))"
    using b by (simp add: decode_sequence_def take_cont_percent [OF x] take_cont_percent [OF y]
        take_cont_percent [OF z])
  also have "\<dots> = Some (utf16 cp, r)"
    unfolding cp Let_def using assms by simp
  finally show ?thesis .
qed

lemma decode_one_escape:
  assumes "cp < 0x110000" and "\<not> (0xD800 \<le> cp \<and> cp < 0xE000)"
  shows "decode_one (escape_code_point cp @ r) = Some (utf16 cp, r)"
proof -
  consider "cp < 0x80" | "0x80 \<le> cp" "cp < 0x800" | "0x800 \<le> cp" "cp < 0x10000"
    | "0x10000 \<le> cp"
    by linarith
  then show ?thesis
  proof cases
    case 1
    then have "escape_code_point cp @ r = percent cp @ r"
      by (simp add: escape_code_point_def utf8_def)
    moreover have "decode_one (percent cp @ r) = Some (utf16 cp, r)"
      using 1 by (simp add: decode_one_percent decode_sequence_def)
    ultimately show ?thesis by simp
  next
    case 2
    then have "escape_code_point cp @ r = percent (0xC0 + cp div 64) @ percent (0x80 + cp mod 64) @ r"
      by (simp add: escape_code_point_def utf8_def)
    moreover have "0xC0 + cp div 64 < 256" using 2 by simp
    ultimately show ?thesis
      by (simp only: decode_one_percent two_octets [OF 2])
  next
    case 3
    then have "escape_code_point cp @ r =
        percent (0xE0 + cp div 4096) @ percent (0x80 + (cp div 64) mod 64) @
        percent (0x80 + cp mod 64) @ r"
      by (simp add: escape_code_point_def utf8_def)
    moreover have "0xE0 + cp div 4096 < 256" using 3 by simp
    ultimately show ?thesis
      by (simp only: decode_one_percent three_octets [OF 3 assms(2)])
  next
    case 4
    then have "escape_code_point cp @ r =
        percent (0xF0 + cp div 262144) @ percent (0x80 + (cp div 4096) mod 64) @
        percent (0x80 + (cp div 64) mod 64) @ percent (0x80 + cp mod 64) @ r"
      by (simp add: escape_code_point_def utf8_def)
    moreover have "0xF0 + cp div 262144 < 256" using 4 assms(1) by simp
    ultimately show ?thesis
      by (simp only: decode_one_percent four_octets [OF 4 assms(1)])
  qed
qed

lemma is_lead_nat: "is_lead c \<longleftrightarrow> 0xD800 \<le> unat c \<and> unat c \<le> 0xDBFF"
  by (simp add: is_lead_def word_le_nat_alt)

lemma is_trail_nat: "is_trail c \<longleftrightarrow> 0xDC00 \<le> unat c \<and> unat c \<le> 0xDFFF"
  by (simp add: is_trail_def word_le_nat_alt)

lemma unat_code_unit_bound: "unat (c :: code_unit) < 65536"
  using unsigned_less [of c, where ?'a = nat] by simp

lemma utf16_unit: "utf16 (unat (c :: code_unit)) = [c]"
  using unat_code_unit_bound [of c] by (simp add: utf16_def)

lemma pair_code_point_range:
  assumes "is_lead c" and "is_trail d"
  shows "0x10000 \<le> pair_code_point c d" and "pair_code_point c d < 0x110000"
  using assms by (auto simp: pair_code_point_def is_lead_nat is_trail_nat)

lemma utf16_pair:
  assumes "is_lead c" and "is_trail d"
  shows "utf16 (pair_code_point c d) = [c, d]"
proof -
  define h where "h = unat c - 0xD800"
  define l where "l = unat d - 0xDC00"
  have c: "unat c = 0xD800 + h" and d: "unat d = 0xDC00 + l" and l: "l < 0x400"
    using assms by (auto simp: h_def l_def is_lead_nat is_trail_nat)
  have p: "pair_code_point c d - 0x10000 = h * 0x400 + l"
    by (simp add: pair_code_point_def h_def l_def)
  have "(h * 0x400 + l) div 0x400 = h" and "(h * 0x400 + l) mod 0x400 = l"
    using l by simp_all
  then have "utf16 (pair_code_point c d) = [of_nat (unat c), of_nat (unat d)]"
    using pair_code_point_range [OF assms] by (simp add: utf16_def p c d)
  then show ?thesis by simp
qed

lemma decodeURIComponent_Nil: "decodeURIComponent [] = Some []"
  by (simp add: decodeURIComponent.simps)

lemma decodeURIComponent_step:
  assumes "decode_one s = Some (out, rest)" and "length rest < length s"
  shows "decodeURIComponent s =
           (case decodeURIComponent rest of None \<Rightarrow> None | Some r \<Rightarrow> Some (out @ r))"
proof -
  from assms(2) have "s \<noteq> []" by auto
  with assms show ?thesis
    by (subst decodeURIComponent.simps) simp
qed

lemma uriUnescaped_not_percent: "uriUnescaped c \<Longrightarrow> c \<noteq> 0x25"
  by (auto simp: uriUnescaped_def)

lemma escape_nonempty: "escape_code_point cp \<noteq> []"
  by (simp add: escape_code_point_def utf8_def percent_def)

lemma decode_encoded_unit:
  assumes "cp < 0x110000" and "\<not> (0xD800 \<le> cp \<and> cp < 0xE000)"
    and "decodeURIComponent r = Some a"
  shows "decodeURIComponent (escape_code_point cp @ r) = Some (utf16 cp @ a)"
  using decodeURIComponent_step [OF decode_one_escape [OF assms(1,2), of r]] escape_nonempty [of cp]
    assms(3)
  by simp

lemma decode_encode:
  "encodeURIComponent s = Inr e \<Longrightarrow> decodeURIComponent e = Some s"
proof (induction s arbitrary: e rule: encodeURIComponent.induct)
  case 1
  then show ?case by (simp add: decodeURIComponent_Nil)
next
  case (2 c cs)
  show ?case
  proof (cases "uriUnescaped c")
    case True
    with "2.prems" obtain r where r: "encodeURIComponent cs = Inr r" and e: "e = c # r"
      by (auto split: sum.splits)
    have "decodeURIComponent r = Some cs"
      using "2.IH"(1) True r by blast
    moreover have "decode_one (c # r) = Some ([c], r)"
      using uriUnescaped_not_percent [OF True] by (simp add: decode_one_def)
    ultimately show ?thesis
      using decodeURIComponent_step [of "c # r" "[c]" r] by (simp add: e)
  next
    case False
    note esc = False
    show ?thesis
    proof (cases "is_lead c")
      case True
      then have nt: "\<not> is_trail c"
        by (simp add: is_lead_nat is_trail_nat)
      from "2.prems" esc nt True obtain d ds r where cs: "cs = d # ds" and d: "is_trail d"
        and r: "encodeURIComponent ds = Inr r"
        and e: "e = escape_code_point (pair_code_point c d) @ r"
        by (auto split: list.splits if_splits sum.splits)
      have "decodeURIComponent r = Some ds"
        using "2.IH"(2) esc nt True cs d r by blast
      then have "decodeURIComponent e = Some (utf16 (pair_code_point c d) @ ds)"
        unfolding e using pair_code_point_range [OF True d]
        by (intro decode_encoded_unit) simp_all
      then show ?thesis
        by (simp add: utf16_pair [OF True d] cs)
    next
      case False
      from "2.prems" esc False have nt: "\<not> is_trail c"
        by (auto split: if_splits)
      from "2.prems" esc False nt obtain r where r: "encodeURIComponent cs = Inr r"
        and e: "e = escape_code_point (unat c) @ r"
        by (auto split: sum.splits)
      have "decodeURIComponent r = Some cs"
        using "2.IH"(3) esc nt False r by blast
      moreover have "\<not> (0xD800 \<le> unat c \<and> unat c < 0xE000)"
        using False nt by (auto simp: is_lead_nat is_trail_nat)
      moreover have "unat c < 0x110000"
        using unat_code_unit_bound [of c] by simp
      ultimately have "decodeURIComponent e = Some (utf16 (unat c) @ cs)"
        unfolding e by (intro decode_encoded_unit)
      then show ?thesis
        by (simp add: utf16_unit)
    qed
  qed
qed

lemma reserved_free_simps:
  "reserved_free []"
  "reserved_free (c # s) \<longleftrightarrow> (c \<noteq> 0x23 \<and> c \<noteq> 0x26 \<and> c \<noteq> 0x3D \<and> c \<noteq> 0x3F) \<and> reserved_free s"
  "reserved_free (s @ t) \<longleftrightarrow> reserved_free s \<and> reserved_free t"
  by (auto simp: reserved_free_def)

lemma uriUnescaped_plain:
  "uriUnescaped c \<Longrightarrow> c \<noteq> 0x23 \<and> c \<noteq> 0x26 \<and> c \<noteq> 0x3D \<and> c \<noteq> 0x3F"
  by (auto simp: uriUnescaped_def)

lemma hexdigit_plain:
  assumes "n < 16"
  shows "hexdigit n \<noteq> 0x23 \<and> hexdigit n \<noteq> 0x26 \<and> hexdigit n \<noteq> 0x3D \<and> hexdigit n \<noteq> 0x3F"
proof -
  have "unat (hexdigit n) \<notin> {0x23, 0x26, 0x3D, 0x3F}"
    using assms by (auto simp: unat_hexdigit split: if_splits)
  then show ?thesis by auto
qed

lemma percent_plain: "b < 256 \<Longrightarrow> reserved_free (percent b)"
  using hexdigit_plain [of "b div 16"] hexdigit_plain [of "b mod 16"]
  by (simp add: percent_def reserved_free_simps)

lemma escape_plain:
  assumes "cp < 0x110000"
  shows "reserved_free (escape_code_point cp)"
proof -
  have "cp div 64 < 32" if "cp < 0x800" using that by simp
  moreover have "cp div 4096 < 16" if "cp < 0x10000" using that by simp
  moreover have "cp div 262144 < 8" using assms by simp
  ultimately show ?thesis
    by (simp add: escape_code_point_def utf8_def reserved_free_simps percent_plain)
qed

lemma encoded_plain: "encodeURIComponent s = Inr e \<Longrightarrow> reserved_free e"
proof (induction s arbitrary: e rule: encodeURIComponent.induct)
  case 1
  then show ?case by (simp add: reserved_free_simps)
next
  case (2 c cs)
  have unit: "reserved_free (escape_code_point (unat c))"
    using unat_code_unit_bound [of c] by (intro escape_plain) simp
  have pair: "reserved_free (escape_code_point (pair_code_point c d))"
    if "is_lead c" and "is_trail d" for d
    using pair_code_point_range [OF that] by (intro escape_plain)
  from "2.prems" "2.IH" show ?case
    by (auto simp: reserved_free_simps uriUnescaped_plain unit pair
        split: sum.splits if_splits list.splits)
qed

lemma split_on_absent: "sep \<notin> set s \<Longrightarrow> split_on sep s = [s]"
  by (induction s) auto

lemma query_params_rewritten:
  assumes "reserved_free e"
  shows "query_params (js ''/proxy_backend?url='' @ e) = [(js ''url'', e)]"
proof -
  have e: "0x23 \<notin> set e" "0x26 \<notin> set e"
    using assms by (auto simp: reserved_free_def)
  have whole: "takeWhile (\<lambda>c. c \<noteq> 0x23) (js ''/proxy_backend?url='' @ e) = js ''/proxy_backend?url='' @ e"
    using e(1) by (auto simp: takeWhile_eq_all_conv js_def)
  have query: "drop 1 (dropWhile (\<lambda>c. c \<noteq> 0x3F) (js ''/proxy_backend?url='' @ e)) = js ''url='' @ e"
    by (simp add: js_def)
  have one: "split_on 0x26 (js ''url='' @ e) = [js ''url='' @ e]"
    using e(2) by (intro split_on_absent) (auto simp: js_def)
  have name: "takeWhile (\<lambda>c. c \<noteq> 0x3D) (js ''url='' @ e) = js ''url''"
    and val: "drop 1 (dropWhile (\<lambda>c. c \<noteq> 0x3D) (js ''url='' @ e)) = e"
    by (simp_all add: js_def)
  show ?thesis
    by (simp only: query_params_def whole query one list.map name val)
qed

lemma wellFormed_encodes: "isWellFormed s \<Longrightarrow> \<exists>e. encodeURIComponent s = Inr e"
proof (induction s rule: isWellFormed.induct)
  case 1
  then show ?case by simp
next
  case (2 c)
  then show ?case by simp
next
  case (3 c d cs)
  show ?case
  proof (cases "is_lead c")
    case True
    then have "\<not> uriUnescaped c" "\<not> is_trail c"
      by (auto simp: uriUnescaped_def is_lead_def is_trail_def word_le_nat_alt)
    moreover from 3 True obtain e where "encodeURIComponent cs = Inr e" and "is_trail d"
      by auto
    ultimately show ?thesis
      using True by simp
  next
    case False
    with 3 obtain e where e: "encodeURIComponent (d # cs) = Inr e" and nt: "\<not> is_trail c"
      by auto
    have "encodeURIComponent (c # d # cs) =
        (if uriUnescaped c then Inr (c # e) else Inr (escape_code_point (unat c) @ e))"
      using False nt by (subst encodeURIComponent.simps(2)) (simp add: e del: encodeURIComponent.simps)
    then show ?thesis by auto
  qed
qed

lemma getAttribute_setAttribute_same:
  "getAttribute (setAttribute attrs a v) a = Some v"
  by (induction attrs a v rule: setAttribute.induct) (auto simp: getAttribute_def)

text \<open>
  C1, as amended. Let an attribute have a non-empty value that does not pass the scheme
  test and that resolves against the base URL to a non-empty string \<open>A\<close> without an
  unpaired surrogate (the serialisation of a URL is such a string: it is ASCII). Then
  \<open>rewriteAttr\<close> returns normally and the attribute has the value
  \<open>/proxy_backend?url=\<close> followed by a string \<open>enc\<close>; the query of that value has
  the single parameter \<open>url\<close> with the value \<open>enc\<close>, and percent-decoding \<open>enc\<close>
  yields exactly \<open>A\<close>. When the value of the attribute is empty, \<open>rewriteAttr\<close>
  leaves the attributes of the element as they are, whatever the empty value resolves
  to.
\<close>

theorem rewritten_value_round_trip:
  "(getAttribute attrs attr = Some r \<and> r \<noteq> [] \<and> \<not> is_script_or_data r \<and>
    resolveAbsoluteUrl p baseUrl r = Some A \<and> A \<noteq> [] \<and> isWellFormed A \<longrightarrow>
      (\<exists>enc. rewriteAttr p baseUrl attrs attr =
                 Inr (setAttribute attrs attr (js ''/proxy_backend?url='' @ enc)) \<and>
             getAttribute (setAttribute attrs attr (js ''/proxy_backend?url='' @ enc)) attr =
                 Some (js ''/proxy_backend?url='' @ enc) \<and>
             query_params (js ''/proxy_backend?url='' @ enc) = [(js ''url'', enc)] \<and>
             decodeURIComponent enc = Some A)) \<and>
   (getAttribute attrs attr = Some [] \<longrightarrow> rewriteAttr p baseUrl attrs attr = Inr attrs)"
proof (intro conjI impI)
  assume h: "getAttribute attrs attr = Some r \<and> r \<noteq> [] \<and> \<not> is_script_or_data r \<and>
    resolveAbsoluteUrl p baseUrl r = Some A \<and> A \<noteq> [] \<and> isWellFormed A"
  then obtain enc where enc: "encodeURIComponent A = Inr enc"
    using wellFormed_encodes by blast
  have "rewriteAttr p baseUrl attrs attr =
      Inr (setAttribute attrs attr (js ''/proxy_backend?url='' @ enc))"
    using h enc by (simp add: rewriteAttr_def)
  moreover note getAttribute_setAttribute_same query_params_rewritten [OF encoded_plain [OF enc]]
    decode_encode [OF enc]
  ultimately show "\<exists>enc. rewriteAttr p baseUrl attrs attr =
                 Inr (setAttribute attrs attr (js ''/proxy_backend?url='' @ enc)) \<and>
             getAttribute (setAttribute attrs attr (js ''/proxy_backend?url='' @ enc)) attr =
                 Some (js ''/proxy_backend?url='' @ enc) \<and>
             query_params (js ''/proxy_backend?url='' @ enc) = [(js ''url'', enc)] \<and>
             decodeURIComponent enc = Some A"
    by blast
next
  assume "getAttribute attrs attr = Some []"
  then show "rewriteAttr p baseUrl attrs attr = Inr attrs"
    by (simp add: rewriteAttr_def)
qed

theorem rewritten_value_round_trip_witness:
  "rewriteAttr sample_platform (js ''https://example.com/start'')
       [(js ''href'', js ''/about'')] (js ''href'') =
     Inr [(js ''href'', js ''/proxy_backend?url=https%3A%2F%2Fexample.com%2Fabout'')] \<and>
   query_params (js ''/proxy_backend?url=https%3A%2F%2Fexample.com%2Fabout'') =
     [(js ''url'', js ''https%3A%2F%2Fexample.com%2Fabout'')] \<and>
   decodeURIComponent (js ''https%3A%2F%2Fexample.com%2Fabout'') =
     Some (js ''https://example.com/about'') \<and>
   getAttribute [(js ''class'', js ''top''), (js ''href'', [])] (js ''href'') = Some [] \<and>
   rewriteAttr sample_platform (js ''https://example.com/start'')
       [(js ''class'', js ''top''), (js ''href'', [])] (js ''href'') =
     Inr [(js ''class'', js ''top''), (js ''href'', [])]"
proof -
  have get: "getAttribute [(js ''href'', js ''/about'')] (js ''href'') = Some (js ''/about'')"
    by (simp add: getAttribute_def)
  have ne: "js ''/about'' \<noteq> []" "js ''https://example.com/about'' \<noteq> []"
    by (simp_all add: js_def)
  have plain: "\<not> is_script_or_data (js ''/about'')"
    by (simp add: is_script_or_data_def is_space_def canonicalize_def js_def)
  have wf: "isWellFormed (js ''https://example.com/about'')"
    by (simp add: js_def is_lead_def is_trail_def)
  from rewritten_value_round_trip [where attrs = "[(js ''href'', js ''/about'')]"
      and attr = "js ''href''" and r = "js ''/about''" and p = sample_platform
      and baseUrl = "js ''https://example.com/start''" and A = "js ''https://example.com/about''"]
    get ne plain sample_resolve_about wf
  obtain enc where
    rw: "rewriteAttr sample_platform (js ''https://example.com/start'')
           [(js ''href'', js ''/about'')] (js ''href'') =
         Inr (setAttribute [(js ''href'', js ''/about'')] (js ''href'')
                (js ''/proxy_backend?url='' @ enc))"
    and q: "query_params (js ''/proxy_backend?url='' @ enc) = [(js ''url'', enc)]"
    and d: "decodeURIComponent enc = Some (js ''https://example.com/about'')"
    by blast
  have "js ''/proxy_backend?url=https%3A%2F%2Fexample.com%2Fabout'' =
      js ''/proxy_backend?url='' @ js ''https%3A%2F%2Fexample.com%2Fabout''"
    by (simp add: js_def)
  with rw have "enc = js ''https%3A%2F%2Fexample.com%2Fabout''"
    by (simp add: sample_rewriteAttr_about)
  with q d have first: "rewriteAttr sample_platform (js ''https://example.com/start'')
       [(js ''href'', js ''/about'')] (js ''href'') =
     Inr [(js ''href'', js ''/proxy_backend?url=https%3A%2F%2Fexample.com%2Fabout'')] \<and>
   query_params (js ''/proxy_backend?url=https%3A%2F%2Fexample.com%2Fabout'') =
     [(js ''url'', js ''https%3A%2F%2Fexample.com%2Fabout'')] \<and>
   decodeURIComponent (js ''https%3A%2F%2Fexample.com%2Fabout'') =
     Some (js ''https://example.com/about'')"
    by (simp add: sample_rewriteAttr_about js_append [symmetric])
  have empty: "getAttribute [(js ''class'', js ''top''), (js ''href'', [])] (js ''href'') = Some []"
    by (simp add: getAttribute_def js_def)
  from rewritten_value_round_trip [where attrs = "[(js ''class'', js ''top''), (js ''href'', [])]"
      and attr = "js ''href''" and p = sample_platform
      and baseUrl = "js ''https://example.com/start''"] empty
  have "rewriteAttr sample_platform (js ''https://example.com/start'')
       [(js ''class'', js ''top''), (js ''href'', [])] (js ''href'') =
     Inr [(js ''class'', js ''top''), (js ''href'', [])]"
    by blast
  with first empty show ?thesis
    by (simp only: simp_thms)
qed

text \<open>
  The claim as stated fails for the empty attribute value: it resolves (to the base
  URL), it has no script or data scheme, and \<open>rewriteAttr\<close> leaves it empty, so that
  decoding it does not give the resolved URL.
\<close>

theorem rewritten_value_empty_counterexample:
  "getAttribute [(js ''href'', [])] (js ''href'') = Some [] \<and>
   resolveAbsoluteUrl sample_platform (js ''https://example.com/start'') [] =
     Some (js ''https://example.com/start'') \<and>
   \<not> is_script_or_data [] \<and>
   rewriteAttr sample_platform (js ''https://example.com/start'') [(js ''href'', [])] (js ''href'') =
     Inr [(js ''href'', [])] \<and>
   decodeURIComponent [] \<noteq> Some (js ''https://example.com/start'')"
  by (simp add: getAttribute_def sample_resolve_empty rewriteAttr_def is_script_or_data_def
        decodeURIComponent_Nil)
     (simp add: js_def)

end
